theory Spec2Isabelle
  imports Complex_Main
begin

section \<open>JavaScript values\<close>

text \<open>
  The server of \<^verbatim>\<open>src/server/index.js\<close> handles JSON: request bodies parsed by
  \<^verbatim>\<open>express.json()\<close>, the text a provider returns, and the objects handed to
  \<^verbatim>\<open>res.json\<close>. A value is \<^verbatim>\<open>undefined\<close> or a JSON value. A number is a double:
  NaN, an infinity, or a finite value, kept as the rational it denotes (the code only
  adds small integers and compares, so no rounding occurs; the sign of zero is not
  kept). A string is the list of its code units, restricted to code units below 256.
  An object is the list of its own properties in order, with distinct keys.
\<close>

datatype jnum = NaN | PosInf | NegInf | Fin rat

datatype jv =
    JUndef
  | JNull
  | JBool bool
  | JNum jnum
  | JStr string
  | JArr "jv list"
  | JObj "(string \<times> jv) list"

text \<open>
  The only exception that the modelled code raises by itself is a \<^verbatim>\<open>TypeError\<close>:
  converting an object to a primitive when it has no callable \<^verbatim>\<open>toString\<close>, applying
  \<^verbatim>\<open>in\<close> to a primitive, or calling a method that a value does not have.
\<close>

datatype error = TypeError

text \<open>
  Sequencing of steps that may throw: the first exception ends the computation.
\<close>

definition thenE :: "error + 'a \<Rightarrow> ('a \<Rightarrow> error + 'b) \<Rightarrow> error + 'b" where
  "thenE r f = (case r of Inl e \<Rightarrow> Inl e | Inr x \<Rightarrow> f x)"

text \<open>
  Built-in functions of the language that the code calls and whose algorithms are not
  part of the repository are parameters of the model: \<^verbatim>\<open>JSON.parse\<close> (\<open>None\<close> is a
  \<^verbatim>\<open>SyntaxError\<close>), the conversion of a number to a string and of a string to a number.
\<close>

record builtins =
  JSON_parse :: "string \<Rightarrow> jv option"
  Number_toString :: "jnum \<Rightarrow> string"
  StringToNumber :: "string \<Rightarrow> jnum"

text \<open>Truthiness: what \<^verbatim>\<open>!v\<close>, \<^verbatim>\<open>v && w\<close>, \<^verbatim>\<open>v || w\<close> and \<^verbatim>\<open>if (v)\<close> test.\<close>

fun truthy :: "jv \<Rightarrow> bool" where
  "truthy JUndef = False"
| "truthy JNull = False"
| "truthy (JBool b) = b"
| "truthy (JNum n) = (case n of NaN \<Rightarrow> False | Fin q \<Rightarrow> q \<noteq> 0 | PosInf \<Rightarrow> True | NegInf \<Rightarrow> True)"
| "truthy (JStr s) = (s \<noteq> [])"
| "truthy (JArr xs) = True"
| "truthy (JObj kvs) = True"

definition js_and :: "jv \<Rightarrow> jv \<Rightarrow> jv" where
  "js_and a b = (if truthy a then b else a)"

definition js_or :: "jv \<Rightarrow> jv \<Rightarrow> jv" where
  "js_or a b = (if truthy a then a else b)"

text \<open>
  Property read \<^verbatim>\<open>v.k\<close>, for the property names the code reads (none of them is a
  property of a built-in prototype, of an array or of a string): an object gives its own
  property, every other value gives \<^verbatim>\<open>undefined\<close>. The code never reads a property of
  \<^verbatim>\<open>null\<close> or \<^verbatim>\<open>undefined\<close>: each read is guarded by a truthiness test.
\<close>

fun get_prop :: "jv \<Rightarrow> string \<Rightarrow> jv" where
  "get_prop (JObj kvs) k = (case map_of kvs k of None \<Rightarrow> JUndef | Some v \<Rightarrow> v)"
| "get_prop v k = JUndef"

text \<open>
  Property write \<^verbatim>\<open>o.k = v\<close> on an object: an existing property keeps its place, a
  new one goes last.
\<close>

fun set_entry :: "string \<Rightarrow> jv \<Rightarrow> (string \<times> jv) list \<Rightarrow> (string \<times> jv) list" where
  "set_entry k v [] = [(k, v)]"
| "set_entry k v (p # ps) = (if fst p = k then (k, v) # ps else p # set_entry k v ps)"

text \<open>
  \<^verbatim>\<open>ToString\<close>, as a template literal applies it. An array is joined with commas,
  \<^verbatim>\<open>null\<close> and \<^verbatim>\<open>undefined\<close> elements giving the empty string. An object that came
  from JSON has no callable property of its own, so an own \<^verbatim>\<open>toString\<close> property
  hides \<^verbatim>\<open>Object.prototype.toString\<close> and the conversion throws; the inherited
  \<^verbatim>\<open>valueOf\<close> returns the object itself and does not help.
\<close>

fun join_with :: "string \<Rightarrow> string list \<Rightarrow> string" where
  "join_with sep [] = []"
| "join_with sep [s] = s"
| "join_with sep (s # t # ss) = s @ sep @ join_with sep (t # ss)"

fun ToString :: "builtins \<Rightarrow> jv \<Rightarrow> error + string"
  and join_elems :: "builtins \<Rightarrow> jv list \<Rightarrow> error + string list" where
  "ToString bi JUndef = Inr ''undefined''"
| "ToString bi JNull = Inr ''null''"
| "ToString bi (JBool b) = Inr (if b then ''true'' else ''false'')"
| "ToString bi (JNum n) = Inr (Number_toString bi n)"
| "ToString bi (JStr s) = Inr s"
| "ToString bi (JArr xs) =
     (case join_elems bi xs of Inl e \<Rightarrow> Inl e | Inr ss \<Rightarrow> Inr (join_with '','' ss))"
| "ToString bi (JObj kvs) =
     (if map_of kvs ''toString'' \<noteq> None then Inl TypeError else Inr ''[object Object]'')"
| "join_elems bi [] = Inr []"
| "join_elems bi (x # xs) =
     (case (if x = JUndef \<or> x = JNull then Inr [] else ToString bi x) of
        Inl e \<Rightarrow> Inl e
      | Inr s \<Rightarrow> (case join_elems bi xs of Inl e \<Rightarrow> Inl e | Inr ss \<Rightarrow> Inr (s # ss)))"

text \<open>
  \<^verbatim>\<open>Number(v)\<close>: an object or array is first converted to a primitive, which for
  values that came from JSON is its string conversion.
\<close>

fun ToNumber :: "builtins \<Rightarrow> jv \<Rightarrow> error + jnum" where
  "ToNumber bi JUndef = Inr NaN"
| "ToNumber bi JNull = Inr (Fin 0)"
| "ToNumber bi (JBool b) = Inr (Fin (if b then 1 else 0))"
| "ToNumber bi (JNum n) = Inr n"
| "ToNumber bi (JStr s) = Inr (StringToNumber bi s)"
| "ToNumber bi v = (case ToString bi v of Inl e \<Rightarrow> Inl e | Inr s \<Rightarrow> Inr (StringToNumber bi s))"

fun isFinite :: "jnum \<Rightarrow> bool" where
  "isFinite (Fin q) = True"
| "isFinite n = False"

section \<open>The fallback risk heuristic\<close>

text \<open>\<^verbatim>\<open>clamp(v, min, max)\<close>, lines 389-391.\<close>

definition clamp :: "rat \<Rightarrow> rat \<Rightarrow> rat \<Rightarrow> rat" where
  "clamp v lo hi = (if v < lo then lo else if v > hi then hi else v)"

text \<open>
  \<^verbatim>\<open>fallbackRisk(input)\<close>, lines 393-431, in the order of the source: the score
  (lines 394-402), the level (404-406), the reasoning text (408), the two advice texts
  (410-422) and the returned object (424-430). A test \<^verbatim>\<open>input && input.k === c\<close>
  holds when \<open>input\<close> is truthy and its property equals the constant.
\<close>

definition fallback_score :: "jv \<Rightarrow> rat" where
  "fallback_score input =
     (let score = 0;
          score = (if truthy input \<and> get_prop input ''timeOfDay'' = JStr ''night''
                   then score + 25 else score);
          score = (if truthy input \<and> get_prop input ''userAlone'' = JBool True
                   then score + 25 else score);
          score = (if truthy input \<and> get_prop input ''neighborhoodType'' = JStr ''industrial''
                   then score + 20 else score);
          score = (if truthy input \<and> get_prop input ''neighborhoodType'' = JStr ''downtown''
                   then score + 10 else score);
          score = (if truthy input \<and> get_prop input ''routeLighting'' = JStr ''poor''
                   then score + 20 else score);
          score = (if truthy input \<and> get_prop input ''routeLighting'' = JStr ''mixed''
                   then score + 10 else score)
      in clamp score 0 100)"

definition fallback_level :: "rat \<Rightarrow> string" where
  "fallback_level score =
     (if score \<ge> 70 then ''HIGH'' else if score \<ge> 40 then ''MEDIUM'' else ''LOW'')"

definition fallback_reasoning :: "builtins \<Rightarrow> jv \<Rightarrow> error + string" where
  "fallback_reasoning bi input =
     thenE (ToString bi (js_and input (get_prop input ''timeOfDay''))) (\<lambda>t.
     thenE (ToString bi (js_and input (get_prop input ''userAlone''))) (\<lambda>u.
     thenE (ToString bi (js_and input (get_prop input ''neighborhoodType''))) (\<lambda>n.
     thenE (ToString bi (js_and input (get_prop input ''routeLighting''))) (\<lambda>l.
       Inr (''Score computed from inputs: timeOfDay='' @ t @ '', userAlone='' @ u
            @ '', neighborhoodType='' @ n @ '', routeLighting='' @ l)))))"

definition guardian_message :: "string \<Rightarrow> string" where
  "guardian_message riskLevel =
     (if riskLevel = ''HIGH''
      then ''High risk detected. Stay alert and consider contacting someone you trust.''
      else if riskLevel = ''MEDIUM''
      then ''Moderate risk detected. Stay aware of your surroundings.''
      else ''Low risk detected. Exercise normal caution.'')"

definition safer_action :: "string \<Rightarrow> string" where
  "safer_action riskLevel =
     (if riskLevel = ''HIGH''
      then ''Avoid the route if possible, choose a well-lit path, or ask someone to accompany you.''
      else if riskLevel = ''MEDIUM''
      then ''Prefer well-lit routes and stay in populated areas.''
      else ''Proceed but remain aware of surroundings.'')"

definition fallbackRisk :: "builtins \<Rightarrow> jv \<Rightarrow> error + jv" where
  "fallbackRisk bi input =
     (let score = fallback_score input;
          riskLevel = fallback_level score
      in case fallback_reasoning bi input of
           Inl e \<Rightarrow> Inl e
         | Inr reasoning \<Rightarrow>
             Inr (JObj [(''riskScore'', JNum (Fin score)),
                        (''riskLevel'', JStr riskLevel),
                        (''reasoning'', JStr reasoning),
                        (''guardianMessage'', JStr (guardian_message riskLevel)),
                        (''saferAction'', JStr (safer_action riskLevel))]))"

section \<open>Strings\<close>

text \<open>
  \<^verbatim>\<open>s.indexOf(c)\<close> and \<^verbatim>\<open>s.lastIndexOf(c)\<close> for a one-character \<open>c\<close>
  (\<open>-1\<close> when absent), and \<^verbatim>\<open>s.slice(a, b)\<close> for \<open>0 \<le> a \<le> b\<close>.
\<close>

fun indexOf :: "string \<Rightarrow> char \<Rightarrow> int" where
  "indexOf [] c = -1"
| "indexOf (x # xs) c =
     (if x = c then 0 else (let i = indexOf xs c in if i = -1 then -1 else i + 1))"

definition lastIndexOf :: "string \<Rightarrow> char \<Rightarrow> int" where
  "lastIndexOf s c =
     (let i = indexOf (rev s) c in if i = -1 then -1 else int (length s) - 1 - i)"

definition slice :: "string \<Rightarrow> int \<Rightarrow> int \<Rightarrow> string" where
  "slice s a b = take (nat (b - a)) (drop (nat a) s)"

text \<open>
  \<^verbatim>\<open>s.trim()\<close>: the white space and line terminators below 256 are the code units
  9 to 13, 32 and 160. \<^verbatim>\<open>s.split(',')[0]\<close> of a non-empty string is the part before
  the first comma.
\<close>

definition is_space :: "char \<Rightarrow> bool" where
  "is_space c = (c \<in> {CHR 0x09, CHR 0x0A, CHR 0x0B, CHR 0x0C, CHR 0x0D, CHR 0x20, CHR 0xA0})"

definition trim :: "string \<Rightarrow> string" where
  "trim s = rev (dropWhile is_space (rev (dropWhile is_space s)))"

definition split_comma_first :: "string \<Rightarrow> string" where
  "split_comma_first s = takeWhile (\<lambda>c. c \<noteq> CHR '','') s"

text \<open>
  \<^verbatim>\<open>s.toLowerCase()\<close> on code units below 256: the letters A to Z, and the Latin-1
  capitals 192 to 222 except the multiplication sign 215, move up by 32, which sets the
  bit of value 32 (it is clear in both ranges).
\<close>

definition toLowerCase_char :: "char \<Rightarrow> char" where
  "toLowerCase_char c =
     (let n = (of_char c :: nat)
      in if (65 \<le> n \<and> n \<le> 90) \<or> (192 \<le> n \<and> n \<le> 222 \<and> n \<noteq> 215)
         then (case c of Char b0 b1 b2 b3 b4 b5 b6 b7 \<Rightarrow> Char b0 b1 b2 b3 b4 True b6 b7)
         else c)"

definition toLowerCase :: "string \<Rightarrow> string" where
  "toLowerCase s = map toLowerCase_char s"

text \<open>Whether \<open>w\<close> occurs in \<open>s\<close> as a contiguous substring.\<close>

fun contains :: "string \<Rightarrow> string \<Rightarrow> bool" where
  "contains w [] = (w = [])"
| "contains w (c # cs) = (take (length w) (c # cs) = w \<or> contains w cs)"

section \<open>Placeholder credentials\<close>

text \<open>
  \<^verbatim>\<open>isPlaceholderKey(k)\<close>, lines 227-231, and its copy \<^verbatim>\<open>isPlaceholder(k)\<close> in the
  speech handler, lines 317-321. An environment variable is a string or absent. The
  regular expression is an unanchored alternation of six literal words, so it matches
  exactly when one of the words occurs in the string.
\<close>

definition placeholder_regex_test :: "string \<Rightarrow> bool" where
  "placeholder_regex_test s =
     (contains ''your'' s \<or> contains ''placeholder'' s \<or> contains ''change'' s \<or>
      contains ''replace'' s \<or> contains ''xxxx'' s \<or> contains ''example'' s)"

definition isPlaceholderKey :: "string option \<Rightarrow> bool" where
  "isPlaceholderKey k =
     (case k of
        None \<Rightarrow> True
      | Some v \<Rightarrow> if v = [] then True else placeholder_regex_test (toLowerCase v))"

definition isPlaceholder :: "string option \<Rightarrow> bool" where
  "isPlaceholder k =
     (case k of
        None \<Rightarrow> True
      | Some v \<Rightarrow> if v = [] then True else placeholder_regex_test (toLowerCase v))"

section \<open>Server state and the memory record\<close>

text \<open>
  The process-wide state: the \<^verbatim>\<open>MEMORY\<close> object (line 63), the text of the file
  \<^verbatim>\<open>memory.json\<close> (\<open>None\<close> when the file does not exist) and the rate limiter's
  \<^verbatim>\<open>Map\<close> (line 161).
\<close>

record memory =
  hasMemory :: bool
  lastLowScenarioId :: jv
  lastSaferAction :: jv

record rate_entry =
  count :: nat
  start :: int

record server =
  MEMORY :: memory
  memory_file :: "string option"
  rateLimitStore :: "string \<Rightarrow> rate_entry option"

definition initial_memory :: memory where
  "initial_memory = \<lparr>hasMemory = False, lastLowScenarioId = JNull, lastSaferAction = JNull\<rparr>"

definition memory_json :: "memory \<Rightarrow> jv" where
  "memory_json m =
     JObj [(''hasMemory'', JBool (hasMemory m)),
           (''lastLowScenarioId'', lastLowScenarioId m),
           (''lastSaferAction'', lastSaferAction m)]"

text \<open>
  What one request meets outside the process: the configured provider key, what the
  provider call of lines 259-269 does when it is run (it throws, or it yields the
  trimmed text of the answer), whether \<^verbatim>\<open>fs.writeFileSync\<close> succeeds, and how
  \<^verbatim>\<open>JSON.stringify(MEMORY, null, 2)\<close> prints the memory record.
\<close>

datatype provider_result = ProviderThrows | ProviderText string

record world =
  GEMINI_API_KEY :: "string option"
  gemini :: provider_result
  writeFileSync_ok :: bool
  JSON_stringify :: "jv \<Rightarrow> string"

text \<open>\<^verbatim>\<open>loadMemory()\<close>, lines 65-81: any failure leaves \<^verbatim>\<open>MEMORY\<close> as it is.\<close>

definition loadMemory :: "builtins \<Rightarrow> server \<Rightarrow> server" where
  "loadMemory bi st =
     (case memory_file st of
        None \<Rightarrow> st
      | Some raw \<Rightarrow>
          (case JSON_parse bi raw of
             None \<Rightarrow> st
           | Some parsed \<Rightarrow>
               if truthy parsed \<and> (case parsed of JObj kvs \<Rightarrow> True | JArr xs \<Rightarrow> True | _ \<Rightarrow> False)
               then st\<lparr>MEMORY :=
                      \<lparr>hasMemory = truthy (get_prop parsed ''hasMemory''),
                       lastLowScenarioId = js_or (get_prop parsed ''lastLowScenarioId'') JNull,
                       lastSaferAction = js_or (get_prop parsed ''lastSaferAction'') JNull\<rparr>\<rparr>
               else st))"

text \<open>
  \<^verbatim>\<open>saveMemory()\<close>, lines 83-89: a failed write is logged and swallowed; the model
  leaves the file as it was in that case.
\<close>

definition saveMemory :: "world \<Rightarrow> server \<Rightarrow> server" where
  "saveMemory w st =
     (if writeFileSync_ok w
      then st\<lparr>memory_file := Some (JSON_stringify w (memory_json (MEMORY st)))\<rparr>
      else st)"

text \<open>\<^verbatim>\<open>GET /api/memory-echo\<close>, lines 102-104.\<close>

definition memory_echo :: "server \<Rightarrow> jv" where
  "memory_echo st = memory_json (MEMORY st)"

section \<open>Requests and responses\<close>

text \<open>
  Of a request the code reads the \<^verbatim>\<open>x-forwarded-for\<close> header, \<^verbatim>\<open>req.ip\<close> and the
  parsed body. A handler either sends a response or lets an exception escape.
\<close>

record request =
  x_forwarded_for :: jv
  ip :: "string option"
  body :: jv

datatype response = Json nat jv | AudioMpeg string

datatype outcome = Sent response | Uncaught error

section \<open>The rate governor\<close>

definition RATE_LIMIT_WINDOW_MS :: int where
  "RATE_LIMIT_WINDOW_MS = 60 * 1000"

definition RATE_LIMIT_MAX :: nat where
  "RATE_LIMIT_MAX = 30"

text \<open>
  \<^verbatim>\<open>getClientIp(req)\<close>, lines 163-167. A truthy header that is not a string has no
  \<^verbatim>\<open>split\<close> method, and the call throws.
\<close>

definition getClientIp :: "request \<Rightarrow> error + string option" where
  "getClientIp req =
     (let forwarded = x_forwarded_for req
      in if truthy forwarded
         then (case forwarded of
                 JStr s \<Rightarrow> Inr (Some (trim (split_comma_first s)))
               | _ \<Rightarrow> Inl TypeError)
         else Inr (ip req))"

text \<open>Line 171: \<^verbatim>\<open>getClientIp(req) || 'unknown'\<close>.\<close>

definition client_key :: "request \<Rightarrow> error + string" where
  "client_key req =
     thenE (getClientIp req)
       (\<lambda>r. Inr (case r of None \<Rightarrow> ''unknown'' | Some a \<Rightarrow> if a = [] then ''unknown'' else a))"

datatype gate = Next | Respond response

text \<open>Lines 172-193 of \<^verbatim>\<open>rateLimitMiddleware\<close>: the window check for one client key.\<close>

definition window_check ::
  "string \<Rightarrow> int \<Rightarrow> (string \<Rightarrow> rate_entry option) \<Rightarrow> gate \<times> (string \<Rightarrow> rate_entry option)" where
  "window_check key now store =
     (case store key of
        None \<Rightarrow> (Next, store(key \<mapsto> \<lparr>count = 1, start = now\<rparr>))
      | Some entry \<Rightarrow>
          if now - start entry > RATE_LIMIT_WINDOW_MS
          then (Next, store(key \<mapsto> \<lparr>count = 1, start = now\<rparr>))
          else (let entry' = entry\<lparr>count := count entry + 1\<rparr>;
                    store' = store(key \<mapsto> entry')
                in if count entry' > RATE_LIMIT_MAX
                   then (Respond (Json 429 (JObj [(''error'', JStr ''rate_limited'')])), store')
                   else (Next, store')))"

text \<open>
  \<^verbatim>\<open>rateLimitMiddleware\<close>, lines 169-197, at time \<open>now\<close> (\<^verbatim>\<open>Date.now()\<close>): the
  \<^verbatim>\<open>catch\<close> of line 194 calls \<^verbatim>\<open>next()\<close>.
\<close>

definition rateLimitMiddleware :: "request \<Rightarrow> int \<Rightarrow> server \<Rightarrow> gate \<times> server" where
  "rateLimitMiddleware req now st =
     (case client_key req of
        Inl e \<Rightarrow> (Next, st)
      | Inr key \<Rightarrow>
          (case window_check key now (rateLimitStore st) of
             (g, store') \<Rightarrow> (g, st\<lparr>rateLimitStore := store'\<rparr>)))"

text \<open>A run of requests of one client, for the properties of a whole window.\<close>

fun window_run ::
  "string \<Rightarrow> int list \<Rightarrow> (string \<Rightarrow> rate_entry option) \<Rightarrow> gate list \<times> (string \<Rightarrow> rate_entry option)" where
  "window_run key [] store = ([], store)"
| "window_run key (now # ts) store =
     (case window_check key now store of
        (g, store') \<Rightarrow> (case window_run key ts store' of (gs, store'') \<Rightarrow> (g # gs, store'')))"

section \<open>The risk assessment handler\<close>

definition required :: "string list" where
  "required = [''scenarioId'', ''timeOfDay'', ''userAlone'', ''neighborhoodType'', ''routeLighting'']"

text \<open>
  \<^verbatim>\<open>field in body\<close> for the required field names: an own property of an object; no
  property of an array; a \<^verbatim>\<open>TypeError\<close> on a primitive.
\<close>

fun js_in :: "string \<Rightarrow> jv \<Rightarrow> error + bool" where
  "js_in k (JObj kvs) = Inr (map_of kvs k \<noteq> None)"
| "js_in k (JArr xs) = Inr False"
| "js_in k v = Inl TypeError"

text \<open>The loop of lines 220-224: the first required field that the body lacks.\<close>

fun first_missing :: "jv \<Rightarrow> string list \<Rightarrow> error + string option" where
  "first_missing b [] = Inr None"
| "first_missing b (field # rest) =
     thenE (js_in field b)
       (\<lambda>present. if \<not> present then Inr (Some field) else first_missing b rest)"

text \<open>\<^verbatim>\<open>Math.min\<close> and \<^verbatim>\<open>Math.max\<close> of two numbers.\<close>

fun Math_min :: "jnum \<Rightarrow> jnum \<Rightarrow> jnum" where
  "Math_min NaN y = NaN"
| "Math_min x NaN = NaN"
| "Math_min NegInf y = NegInf"
| "Math_min x NegInf = NegInf"
| "Math_min PosInf y = y"
| "Math_min x PosInf = x"
| "Math_min (Fin a) (Fin b) = Fin (min a b)"

fun Math_max :: "jnum \<Rightarrow> jnum \<Rightarrow> jnum" where
  "Math_max NaN y = NaN"
| "Math_max x NaN = NaN"
| "Math_max PosInf y = PosInf"
| "Math_max x PosInf = PosInf"
| "Math_max NegInf y = y"
| "Math_max x NegInf = x"
| "Math_max (Fin a) (Fin b) = Fin (max a b)"

text \<open>
  The own properties that \<^verbatim>\<open>{...obj}\<close> copies, and \<^verbatim>\<open>obj.k = v\<close>. Both are only
  applied to objects: \<^verbatim>\<open>sendResult\<close> receives the object built by \<^verbatim>\<open>fallbackRisk\<close>
  or a parsed value that has a \<^verbatim>\<open>riskScore\<close> property.
\<close>

fun own_props :: "jv \<Rightarrow> (string \<times> jv) list" where
  "own_props (JObj kvs) = kvs"
| "own_props v = []"

fun set_prop :: "jv \<Rightarrow> string \<Rightarrow> jv \<Rightarrow> jv" where
  "set_prop (JObj kvs) k v = JObj (set_entry k v kvs)"
| "set_prop x k v = x"

text \<open>
  \<^verbatim>\<open>sendResult(obj, model)\<close>, lines 234-247, for the request body \<open>b\<close>: the memory
  update of a LOW result, then \<^verbatim>\<open>res.json({ ...obj, model })\<close> with status 200.
\<close>

definition sendResult :: "world \<Rightarrow> jv \<Rightarrow> jv \<Rightarrow> string \<Rightarrow> server \<Rightarrow> response \<times> server" where
  "sendResult w b obj model st =
     (let st' =
        (if truthy obj \<and> get_prop obj ''riskLevel'' = JStr ''LOW''
         then saveMemory w
                (st\<lparr>MEMORY :=
                      \<lparr>hasMemory = True,
                       lastLowScenarioId = js_or (get_prop b ''scenarioId'') JNull,
                       lastSaferAction = js_or (get_prop obj ''saferAction'') JNull\<rparr>\<rparr>)
         else st)
      in (Json 200 (JObj (set_entry ''model'' (JStr model) (own_props obj))), st'))"

text \<open>
  \<^verbatim>\<open>const out = fallbackRisk(body); return sendResult(out, 'fallback');\<close> as it
  stands at lines 251-252, 273-274, 295-296 and 305-306.
\<close>

definition respond_fallback ::
  "builtins \<Rightarrow> world \<Rightarrow> jv \<Rightarrow> server \<Rightarrow> error + response \<times> server" where
  "respond_fallback bi w b st =
     thenE (fallbackRisk bi b) (\<lambda>out. Inr (sendResult w b out ''fallback'' st))"

text \<open>Lines 278-292: strict parse, else the slice from the first brace to the last.\<close>

definition parse_provider_text :: "builtins \<Rightarrow> string \<Rightarrow> jv" where
  "parse_provider_text bi text =
     (case JSON_parse bi text of
        Some v \<Rightarrow> v
      | None \<Rightarrow>
          (let first = indexOf text CHR ''{'';
               last = lastIndexOf text CHR ''}''
           in if first \<noteq> -1 \<and> last \<noteq> -1 \<and> last > first
              then (case JSON_parse bi (slice text first (last + 1)) of
                      Some v \<Rightarrow> v
                    | None \<Rightarrow> JNull)
              else JNull))"

text \<open>
  The body of the outer \<^verbatim>\<open>try\<close>, lines 257-302. An exception of the inner
  \<^verbatim>\<open>catch\<close> (lines 270-275), of \<^verbatim>\<open>Number(parsed.riskScore)\<close> or of the fallback of
  line 295 leaves this block and reaches the outer \<^verbatim>\<open>catch\<close>.
\<close>

definition risk_try :: "builtins \<Rightarrow> world \<Rightarrow> jv \<Rightarrow> server \<Rightarrow> error + response \<times> server" where
  "risk_try bi w b st =
     (case gemini w of
        ProviderThrows \<Rightarrow> respond_fallback bi w b st
      | ProviderText text \<Rightarrow>
          (let parsed = parse_provider_text bi text
           in if \<not> truthy parsed then respond_fallback bi w b st
              else thenE (ToNumber bi (get_prop parsed ''riskScore''))
                (\<lambda>n. if \<not> isFinite n then respond_fallback bi w b st
                      else (let parsed' = set_prop parsed ''riskScore''
                                            (JNum (Math_max (Fin 0) (Math_min (Fin 100) n)))
                            in Inr (sendResult w b parsed' ''gemini'' st)))))"

text \<open>
  The handler of \<^verbatim>\<open>POST /api/risk-assess\<close>, lines 210-308, after the rate
  governor. The result is what the handler did for the caller, whether it entered the
  provider call of lines 259-269, and the new state.
\<close>

definition finish :: "server \<Rightarrow> bool \<Rightarrow> error + response \<times> server \<Rightarrow> outcome \<times> bool \<times> server" where
  "finish st called r =
     (case r of Inl e \<Rightarrow> (Uncaught e, called, st) | Inr (resp, st') \<Rightarrow> (Sent resp, called, st'))"

definition risk_assess_handler ::
  "builtins \<Rightarrow> world \<Rightarrow> jv \<Rightarrow> server \<Rightarrow> outcome \<times> bool \<times> server" where
  "risk_assess_handler bi w req_body st =
     (let b = js_or req_body (JObj [])
      in case first_missing b required of
           Inl e \<Rightarrow> (Uncaught e, False, st)
         | Inr (Some field) \<Rightarrow>
             (Sent (Json 400 (JObj [(''error'', JStr (''missing_'' @ field))])), False, st)
         | Inr None \<Rightarrow>
             if isPlaceholderKey (GEMINI_API_KEY w)
             then finish st False (respond_fallback bi w b st)
             else (case risk_try bi w b st of
                     Inr r \<Rightarrow> finish st True (Inr r)
                   | Inl e \<Rightarrow> finish st True (respond_fallback bi w b st)))"

text \<open>The route: the governor, then the handler.\<close>

definition post_risk_assess ::
  "builtins \<Rightarrow> world \<Rightarrow> request \<Rightarrow> int \<Rightarrow> server \<Rightarrow> outcome \<times> bool \<times> server" where
  "post_risk_assess bi w req now st =
     (case rateLimitMiddleware req now st of
        (Respond r, st') \<Rightarrow> (Sent r, False, st')
      | (Next, st') \<Rightarrow> risk_assess_handler bi w (body req) st')"

section \<open>The speech handler\<close>

text \<open>
  What \<^verbatim>\<open>fetch\<close> and the reading of its response do: the call throws; the status is
  not a success, with the body text if it can be read; or it is a success, with the
  audio bytes if they can be read.
\<close>

datatype fetch_result = FetchThrows | FetchNotOk "string option" | FetchOk "string option"

definition tts_fallback :: "string \<Rightarrow> response" where
  "tts_fallback text =
     Json 200 (JObj [(''ok'', JBool False), (''fallback'', JBool True),
                     (''provider'', JStr ''browser_tts''), (''text'', JStr text),
                     (''reason'', JStr ''elevenlabs_unavailable'')])"

text \<open>The handler of \<^verbatim>\<open>POST /api/tts\<close>, lines 310-387, after the rate governor.\<close>

definition tts_handler ::
  "builtins \<Rightarrow> string option \<Rightarrow> string option \<Rightarrow> fetch_result \<Rightarrow> jv \<Rightarrow> response" where
  "tts_handler bi API_KEY VOICE_ID fetched req_body =
     (case get_prop (js_or req_body (JObj [])) ''text'' of
        JStr text \<Rightarrow>
          if length text > 400 then Json 400 (JObj [(''error'', JStr ''text_too_long'')])
          else if isPlaceholder API_KEY \<or> isPlaceholder VOICE_ID
          then Json 500 (JObj [(''error'', JStr ''elevenlabs_not_configured'')])
          else (case fetched of
                  FetchThrows \<Rightarrow> tts_fallback text
                | FetchNotOk read \<Rightarrow>
                    (let bodyText = (case read of None \<Rightarrow> [] | Some t \<Rightarrow> t);
                         parsed = (case JSON_parse bi bodyText of None \<Rightarrow> JNull | Some v \<Rightarrow> v)
                     in if truthy parsed
                           \<and> (get_prop parsed ''type'' = JStr ''payment_required''
                                \<or> get_prop parsed ''code'' = JStr ''paid_plan_required'')
                        then tts_fallback text
                        else tts_fallback text)
                | FetchOk None \<Rightarrow> tts_fallback text
                | FetchOk (Some ab) \<Rightarrow> AudioMpeg ab)
      | _ \<Rightarrow> Json 400 (JObj [(''error'', JStr ''missing_text'')]))"

definition post_tts ::
  "builtins \<Rightarrow> string option \<Rightarrow> string option \<Rightarrow> fetch_result \<Rightarrow> request \<Rightarrow> int \<Rightarrow> server
     \<Rightarrow> response \<times> server" where
  "post_tts bi API_KEY VOICE_ID fetched req now st =
     (case rateLimitMiddleware req now st of
        (Respond r, st') \<Rightarrow> (r, st')
      | (Next, st') \<Rightarrow> (tts_handler bi API_KEY VOICE_ID fetched (body req), st'))"

section \<open>The specification's wording, and example inputs\<close>

text \<open>
  The score as the specification words it: start at 0; add 25 for night; add 25 when
  alone; add 20 for an industrial neighbourhood, else 10 for downtown; add 20 for poor
  lighting, else 10 for mixed; clamp to the range from 0 to 100.
\<close>

definition spec_score :: "jv \<Rightarrow> rat" where
  "spec_score input =
     max 0 (min 100
       (0 + (if get_prop input ''timeOfDay'' = JStr ''night'' then 25 else 0)
          + (if get_prop input ''userAlone'' = JBool True then 25 else 0)
          + (if get_prop input ''neighborhoodType'' = JStr ''industrial'' then 20
             else if get_prop input ''neighborhoodType'' = JStr ''downtown'' then 10 else 0)
          + (if get_prop input ''routeLighting'' = JStr ''poor'' then 20
             else if get_prop input ''routeLighting'' = JStr ''mixed'' then 10 else 0)))"

definition night_alone_industrial_poor :: jv where
  "night_alone_industrial_poor =
     JObj [(''timeOfDay'', JStr ''night''), (''userAlone'', JBool True),
           (''neighborhoodType'', JStr ''industrial''), (''routeLighting'', JStr ''poor'')]"

text \<open>
  For the rate governor: the 429 answer; a request at \<open>now\<close> opens a new window for
  a client when the client has no entry or its window started more than 60 seconds
  earlier; and a client's window, if any, started no later than a given time.
\<close>

definition rate_limited :: gate where
  "rate_limited = Respond (Json 429 (JObj [(''error'', JStr ''rate_limited'')]))"

definition opens_window :: "(string \<Rightarrow> rate_entry option) \<Rightarrow> string \<Rightarrow> int \<Rightarrow> bool" where
  "opens_window store key now =
     (case store key of None \<Rightarrow> True | Some e \<Rightarrow> now - start e > 60000)"

definition started_by :: "(string \<Rightarrow> rate_entry option) \<Rightarrow> string \<Rightarrow> int \<Rightarrow> bool" where
  "started_by store key now =
     (case store key of None \<Rightarrow> True | Some e \<Rightarrow> start e \<le> now)"

text \<open>The state of a server that has just started without a memory file.\<close>

definition fresh_server :: server where
  "fresh_server =
     \<lparr>MEMORY = initial_memory, memory_file = None, rateLimitStore = (\<lambda>k. None)\<rparr>"

text \<open>
  For placeholder credentials: the six words of the specification, and what it means
  for a string to contain a word case-insensitively.
\<close>

definition placeholder_words :: "string list" where
  "placeholder_words = [''your'', ''placeholder'', ''change'', ''replace'', ''xxxx'', ''example'']"

definition contains_ignoring_case :: "string \<Rightarrow> string \<Rightarrow> bool" where
  "contains_ignoring_case s w =
     (\<exists>before u after. s = before @ u @ after \<and> toLowerCase u = toLowerCase w)"

text \<open>
  For the provider path: both parse attempts of lines 278-292 fail; the parsed value
  is falsy, or \<^verbatim>\<open>Number(parsed.riskScore)\<close> throws or is not finite; and a provider
  failure is a throwing call, a text that fails both parses, or such a parsed value.
\<close>

definition both_parses_fail :: "builtins \<Rightarrow> string \<Rightarrow> bool" where
  "both_parses_fail bi text =
     (JSON_parse bi text = None \<and>
      (let first = indexOf text CHR ''{''; last = lastIndexOf text CHR ''}''
       in if first \<noteq> -1 \<and> last \<noteq> -1 \<and> last > first
          then JSON_parse bi (slice text first (last + 1)) = None
          else True))"

definition score_not_finite :: "builtins \<Rightarrow> jv \<Rightarrow> bool" where
  "score_not_finite bi parsed =
     (if truthy parsed
      then (case ToNumber bi (get_prop parsed ''riskScore'') of Inl e \<Rightarrow> True | Inr n \<Rightarrow> \<not> isFinite n)
      else True)"

definition provider_failure :: "builtins \<Rightarrow> world \<Rightarrow> bool" where
  "provider_failure bi w =
     (case gemini w of
        ProviderThrows \<Rightarrow> True
      | ProviderText text \<Rightarrow>
          both_parses_fail bi text \<or> score_not_finite bi (parse_provider_text bi text))"

text \<open>
  What a caller can observe of a handler step: the exception or the response, and the
  memory record (which \<^verbatim>\<open>GET /api/memory-echo\<close> returns), but not the file.
\<close>

definition seen :: "error + response \<times> server \<Rightarrow> error + response \<times> memory" where
  "seen r = (case r of Inl e \<Rightarrow> Inl e | Inr p \<Rightarrow> Inr (fst p, MEMORY (snd p)))"

text \<open>
  Example inputs. The table \<open>example_JSON_parse\<close> gives the values of
  \<^verbatim>\<open>JSON.parse\<close> on three provider answers and throws on every other text, as
  \<^verbatim>\<open>JSON.parse\<close> does on the two other texts used here: an object with prose
  around it, and a refusal in plain words. The examples never convert between numbers
  and strings, so those two built-ins are left constant.
\<close>

definition answer_null_score :: string where
  \<open>answer_null_score = ''{"riskScore":null,"riskLevel":"HIGH","saferAction":"Take a taxi."}''\<close>

definition answer_over_range :: string where
  \<open>answer_over_range = ''Here you go: {"riskScore":150,"riskLevel":"LOW","reasoning":"Quiet street.","guardianMessage":"Enjoy.","saferAction":"Walk on."} Stay safe!''\<close>

definition answer_over_range_object :: string where
  \<open>answer_over_range_object = ''{"riskScore":150,"riskLevel":"LOW","reasoning":"Quiet street.","guardianMessage":"Enjoy.","saferAction":"Walk on."}''\<close>

definition answer_no_score :: string where
  \<open>answer_no_score = ''{"riskLevel":"LOW"}''\<close>

definition answer_refusal :: string where
  "answer_refusal = ''I cannot assess that.''"

definition example_JSON_parse :: "string \<Rightarrow> jv option" where
  "example_JSON_parse s =
     (if s = answer_null_score
      then Some (JObj [(''riskScore'', JNull), (''riskLevel'', JStr ''HIGH''),
                       (''saferAction'', JStr ''Take a taxi.'')])
      else if s = answer_over_range_object
      then Some (JObj [(''riskScore'', JNum (Fin 150)), (''riskLevel'', JStr ''LOW''),
                       (''reasoning'', JStr ''Quiet street.''),
                       (''guardianMessage'', JStr ''Enjoy.''),
                       (''saferAction'', JStr ''Walk on.'')])
      else if s = answer_no_score
      then Some (JObj [(''riskLevel'', JStr ''LOW'')])
      else None)"

definition example_builtins :: builtins where
  "example_builtins =
     \<lparr>JSON_parse = example_JSON_parse,
      Number_toString = (\<lambda>n. ''NaN''),
      StringToNumber = (\<lambda>s. NaN)\<rparr>"

definition example_world :: world where
  "example_world =
     \<lparr>GEMINI_API_KEY = Some ''AIzaSyA1b2C3d4E5'',
      gemini = ProviderThrows,
      writeFileSync_ok = True,
      JSON_stringify = (\<lambda>v. [])\<rparr>"

definition morning_commute :: jv where
  "morning_commute =
     JObj [(''scenarioId'', JStr ''s1''), (''timeOfDay'', JStr ''day''),
           (''userAlone'', JBool False), (''neighborhoodType'', JStr ''downtown''),
           (''routeLighting'', JStr ''good'')]"

definition unnamed_scenario :: jv where
  "unnamed_scenario =
     JObj [(''scenarioId'', JStr []), (''timeOfDay'', JStr ''day''),
           (''userAlone'', JBool False), (''neighborhoodType'', JStr ''downtown''),
           (''routeLighting'', JStr ''good'')]"

definition late_night_walk :: jv where
  "late_night_walk =
     JObj [(''scenarioId'', JStr ''s2''), (''timeOfDay'', JStr ''night''),
           (''userAlone'', JBool True), (''neighborhoodType'', JStr ''residential''),
           (''routeLighting'', JStr ''poor'')]"

definition all_null :: jv where
  "all_null =
     JObj [(''scenarioId'', JNull), (''timeOfDay'', JNull), (''userAlone'', JNull),
           (''neighborhoodType'', JNull), (''routeLighting'', JNull)]"

definition unprintable_time :: jv where
  "unprintable_time =
     JObj [(''scenarioId'', JStr ''s1''),
           (''timeOfDay'', JObj [(''toString'', JStr ''night'')]),
           (''userAlone'', JBool False), (''neighborhoodType'', JStr ''downtown''),
           (''routeLighting'', JStr ''good'')]"

section \<open>Properties of the fallback heuristic\<close>

lemma get_prop_falsy: "\<not> truthy v \<Longrightarrow> get_prop v k = JUndef"
  by (cases v) auto

lemma fallback_score_spec: "fallback_score input = spec_score input"
proof (cases "truthy input")
  case True
  then show ?thesis
    by (simp add: fallback_score_def spec_score_def clamp_def Let_def)
next
  case False
  then show ?thesis
    by (simp add: fallback_score_def spec_score_def clamp_def Let_def get_prop_falsy)
qed

lemma spec_score_range: "0 \<le> spec_score input \<and> spec_score input \<le> 100"
  unfolding spec_score_def by simp

lemma fallback_level_iff:
  "(fallback_level s = ''HIGH'') = (s \<ge> 70)"
  "(fallback_level s = ''MEDIUM'') = (40 \<le> s \<and> s < 70)"
  "(fallback_level s = ''LOW'') = (s < 40)"
  by (auto simp: fallback_level_def)

lemma fallbackRisk_night_alone_industrial_poor:
  "fallbackRisk bi night_alone_industrial_poor =
     Inr (JObj [(''riskScore'', JNum (Fin 90)),
                (''riskLevel'', JStr ''HIGH''),
                (''reasoning'', JStr ''Score computed from inputs: timeOfDay=night, userAlone=true, neighborhoodType=industrial, routeLighting=poor''),
                (''guardianMessage'', JStr ''High risk detected. Stay alert and consider contacting someone you trust.''),
                (''saferAction'', JStr ''Avoid the route if possible, choose a well-lit path, or ask someone to accompany you.'')])"
  by (simp add: night_alone_industrial_poor_def fallbackRisk_def fallback_score_def
      fallback_level_def fallback_reasoning_def thenE_def js_and_def clamp_def
      guardian_message_def safer_action_def)

text \<open>
  C1. \<^verbatim>\<open>fallbackRisk\<close> is a function of its input alone: it takes and returns no
  state, and the built-ins only serve to print numbers into the reasoning text. For
  every input the score it computes is the specified sum, clamped, and lies between 0
  and 100; the level is HIGH exactly from 70, MEDIUM exactly from 40 to below
  70, and LOW below 40; the returned object carries that score and level. The function
  returns unless the reasoning text cannot be built, which only happens when one of the
  four echoed values cannot be converted to a string. The input night, alone,
  industrial, poor yields score 90 and level HIGH.
\<close>

theorem fallbackRisk_computes_the_specified_score:
  "fallback_score input = spec_score input
   \<and> 0 \<le> fallback_score input \<and> fallback_score input \<le> 100
   \<and> (fallback_level s = ''HIGH'') = (s \<ge> 70)
   \<and> (fallback_level s = ''MEDIUM'') = (40 \<le> s \<and> s < 70)
   \<and> (fallback_level s = ''LOW'') = (s < 40)
   \<and> fallbackRisk bi input =
       thenE (fallback_reasoning bi input)
         (\<lambda>reasoning.
            Inr (JObj [(''riskScore'', JNum (Fin (spec_score input))),
                       (''riskLevel'', JStr (fallback_level (spec_score input))),
                       (''reasoning'', JStr reasoning),
                       (''guardianMessage'', JStr (guardian_message (fallback_level (spec_score input)))),
                       (''saferAction'', JStr (safer_action (fallback_level (spec_score input))))]))
   \<and> get_prop (case fallbackRisk bi night_alone_industrial_poor of Inr out \<Rightarrow> out | Inl e \<Rightarrow> JUndef)
        ''riskScore'' = JNum (Fin 90)
   \<and> get_prop (case fallbackRisk bi night_alone_industrial_poor of Inr out \<Rightarrow> out | Inl e \<Rightarrow> JUndef)
        ''riskLevel'' = JStr ''HIGH''"
proof -
  have "fallbackRisk bi input =
       thenE (fallback_reasoning bi input)
         (\<lambda>reasoning.
            Inr (JObj [(''riskScore'', JNum (Fin (spec_score input))),
                       (''riskLevel'', JStr (fallback_level (spec_score input))),
                       (''reasoning'', JStr reasoning),
                       (''guardianMessage'', JStr (guardian_message (fallback_level (spec_score input)))),
                       (''saferAction'', JStr (safer_action (fallback_level (spec_score input))))]))"
    by (simp add: fallbackRisk_def fallback_score_spec thenE_def Let_def)
  moreover have "0 \<le> fallback_score input \<and> fallback_score input \<le> 100"
    using spec_score_range [of input] by (simp add: fallback_score_spec)
  ultimately show ?thesis
    by (simp add: fallback_score_spec fallback_level_iff
        fallbackRisk_night_alone_industrial_poor)
qed

theorem fallbackRisk_computes_the_specified_score_witness:
  "fallback_score night_alone_industrial_poor = 90
   \<and> fallback_level 90 = ''HIGH''
   \<and> fallback_level 55 = ''MEDIUM''
   \<and> fallback_level 10 = ''LOW''"
  using fallbackRisk_computes_the_specified_score [of night_alone_industrial_poor 90]
    fallbackRisk_computes_the_specified_score [of JNull 55]
    fallbackRisk_computes_the_specified_score [of JNull 10]
  by (simp add: spec_score_def night_alone_industrial_poor_def)

section \<open>Properties of the rate governor\<close>

lemma window_check_new:
  "store key = None \<Longrightarrow> window_check key now store = (Next, store(key \<mapsto> \<lparr>count = 1, start = now\<rparr>))"
  by (simp add: window_check_def)

lemma window_check_expired:
  "store key = Some e \<Longrightarrow> now - start e > 60000 \<Longrightarrow>
   window_check key now store = (Next, store(key \<mapsto> \<lparr>count = 1, start = now\<rparr>))"
  by (simp add: window_check_def RATE_LIMIT_WINDOW_MS_def)

lemma window_check_within:
  "store key = Some e \<Longrightarrow> \<not> now - start e > 60000 \<Longrightarrow>
   window_check key now store =
     (if count e + 1 \<le> 30 then Next else rate_limited, store(key \<mapsto> e\<lparr>count := count e + 1\<rparr>))"
  by (simp add: window_check_def RATE_LIMIT_WINDOW_MS_def RATE_LIMIT_MAX_def Let_def rate_limited_def)

lemma upt_shift: "[a..<a + Suc n] = a # [Suc a..<Suc a + n]"
  by (subst upt_conv_Cons) simp_all

lemma window_run_Cons:
  "window_check key t store = (g, store') \<Longrightarrow>
   window_run key (t # ts) store = (g # fst (window_run key ts store'), snd (window_run key ts store'))"
  by (simp split: prod.splits)

lemma window_run_within:
  "store key = Some e \<Longrightarrow> \<forall>t\<in>set ts. t - start e \<le> 60000 \<Longrightarrow>
   fst (window_run key ts store) =
     map (\<lambda>c. if c \<le> 30 then Next else rate_limited) [Suc (count e)..<Suc (count e) + length ts]
   \<and> snd (window_run key ts store) key = Some (e\<lparr>count := count e + length ts\<rparr>)"
proof (induction ts arbitrary: store e)
  case Nil
  then show ?case by simp
next
  case (Cons t ts)
  let ?e' = "e\<lparr>count := count e + 1\<rparr>"
  let ?store' = "store(key \<mapsto> ?e')"
  let ?g = "if count e + 1 \<le> 30 then Next else rate_limited"
  have step: "window_check key t store = (?g, ?store')"
    using Cons.prems by (intro window_check_within) auto
  have run: "window_run key (t # ts) store =
      (?g # fst (window_run key ts ?store'), snd (window_run key ts ?store'))"
    using step by (rule window_run_Cons)
  have "?store' key = Some ?e'" by simp
  moreover have "\<forall>u\<in>set ts. u - start ?e' \<le> 60000" using Cons.prems by simp
  ultimately have IH: "fst (window_run key ts ?store') =
     map (\<lambda>c. if c \<le> 30 then Next else rate_limited) [Suc (count ?e')..<Suc (count ?e') + length ts]
   \<and> snd (window_run key ts ?store') key = Some (?e'\<lparr>count := count ?e' + length ts\<rparr>)"
    by (rule Cons.IH)
  have upt: "[Suc (count e)..<Suc (count e) + length (t # ts)]
      = Suc (count e) # [Suc (count ?e')..<Suc (count ?e') + length ts]"
    using upt_shift [of "Suc (count e)" "length ts"] by simp
  show ?case
    unfolding run upt using IH by simp
qed


lemma window_check_opens:
  "opens_window store key now \<Longrightarrow>
   window_check key now store = (Next, store(key \<mapsto> \<lparr>count = 1, start = now\<rparr>))"
  by (auto simp: opens_window_def window_check_new window_check_expired split: option.splits)

lemma gates_2_32:
  "map (\<lambda>c. if c \<le> 30 then Next else rate_limited) [Suc 1..<Suc 1 + 30]
     = replicate 29 Next @ [rate_limited]"
  by (simp add: upt_rec_numeral numeral_eq_Suc upt_rec)

lemma thirty_first_denied:
  assumes "opens_window store key t1" and "length rest = 30"
    and "\<forall>t\<in>set rest. t - t1 \<le> 60000"
  shows "fst (window_run key (t1 # rest) store) = replicate 30 Next @ [rate_limited]"
proof -
  let ?e = "\<lparr>count = 1, start = t1\<rparr>"
  let ?store' = "store(key \<mapsto> ?e)"
  have run: "window_run key (t1 # rest) store =
      (Next # fst (window_run key rest ?store'), snd (window_run key rest ?store'))"
    using window_check_opens [OF assms(1)] by (rule window_run_Cons)
  have "?store' key = Some ?e" by simp
  moreover have "\<forall>t\<in>set rest. t - start ?e \<le> 60000" using assms(3) by simp
  ultimately have "fst (window_run key rest ?store') =
     map (\<lambda>c. if c \<le> 30 then Next else rate_limited) [Suc (count ?e)..<Suc (count ?e) + length rest]"
    using window_run_within [of ?store' key ?e rest] by blast
  then have "fst (window_run key rest ?store') = replicate 29 Next @ [rate_limited]"
    using gates_2_32 by (simp add: assms(2))
  then show ?thesis
    unfolding run by (simp add: numeral_eq_Suc)
qed

lemma window_check_started:
  "started_by store key t \<Longrightarrow> started_by (snd (window_check key t store)) key t
     \<and> snd (window_check key t store) key \<noteq> None"
  by (auto simp: started_by_def window_check_def Let_def split: option.splits)

lemma started_by_mono: "started_by store key t \<Longrightarrow> t \<le> u \<Longrightarrow> started_by store key u"
  by (auto simp: started_by_def split: option.splits)

lemma window_run_started:
  "ts \<noteq> [] \<Longrightarrow> sorted ts \<Longrightarrow> started_by store key (hd ts) \<Longrightarrow>
   started_by (snd (window_run key ts store)) key (last ts)
     \<and> snd (window_run key ts store) key \<noteq> None"
proof (induction ts arbitrary: store)
  case Nil
  then show ?case by simp
next
  case (Cons t ts)
  obtain g store' where step: "window_check key t store = (g, store')"
    by (cases "window_check key t store")
  have run: "window_run key (t # ts) store =
      (g # fst (window_run key ts store'), snd (window_run key ts store'))"
    using step by (rule window_run_Cons)
  have s': "started_by store' key t \<and> store' key \<noteq> None"
    using window_check_started [of store key t] Cons.prems(3) step by simp
  show ?case
  proof (cases ts)
    case Nil
    then show ?thesis using s' run by simp
  next
    case (Cons u us)
    then have "t \<le> hd ts" and "sorted ts" and "ts \<noteq> []"
      using Cons.prems(2) by auto
    then have "started_by store' key (hd ts)"
      using s' started_by_mono by blast
    then have "started_by (snd (window_run key ts store')) key (last ts)
        \<and> snd (window_run key ts store') key \<noteq> None"
      using Cons.IH \<open>ts \<noteq> []\<close> \<open>sorted ts\<close> by blast
    then show ?thesis using run \<open>ts \<noteq> []\<close> by simp
  qed
qed

lemma admitted_after_silence:
  assumes "ts \<noteq> []" and "sorted ts" and "started_by store key (hd ts)"
    and "now - last ts > 60000"
  shows "window_check key now (snd (window_run key ts store))
     = (Next, (snd (window_run key ts store))(key \<mapsto> \<lparr>count = 1, start = now\<rparr>))"
proof -
  let ?s = "snd (window_run key ts store)"
  have "started_by ?s key (last ts) \<and> ?s key \<noteq> None"
    using window_run_started [OF assms(1-3)] .
  then obtain e where e: "?s key = Some e" "start e \<le> last ts"
    by (auto simp: started_by_def)
  then have "now - start e > 60000" using assms(4) by simp
  with e(1) show ?thesis by (rule window_check_expired)
qed

lemma rateLimitMiddleware_key:
  "client_key req = Inr key \<Longrightarrow>
   rateLimitMiddleware req now st =
     (fst (window_check key now (rateLimitStore st)),
      st\<lparr>rateLimitStore := snd (window_check key now (rateLimitStore st))\<rparr>)"
  by (simp add: rateLimitMiddleware_def split: prod.splits)

lemma rateLimitMiddleware_fails_open:
  "getClientIp req = Inl e \<Longrightarrow> rateLimitMiddleware req now st = (Next, st)"
  by (simp add: rateLimitMiddleware_def client_key_def thenE_def)

lemma window_check_other_key:
  "key' \<noteq> key \<Longrightarrow> snd (window_check key' now store) key = store key"
  by (simp add: window_check_def Let_def split: option.splits)

text \<open>
  C5. For every client key the governor admits a request and sets the entry to count 1
  and the current time when the client has no entry or when the time since the window
  started exceeds 60 seconds; otherwise it increments the count and admits exactly when
  the new count is at most 30, answering 429 with the error \<^verbatim>\<open>rate_limited\<close>
  otherwise. Entries of other clients are left alone. Hence when a request opens a
  window and 30 more requests of the client follow within 60 seconds of it, the first
  30 are admitted and the 31st is denied; and after any run of requests, a request
  that comes more than 60 seconds after the last one is admitted again.
\<close>

theorem rate_governor_window:
  "(store key = None \<longrightarrow>
      window_check key now store = (Next, store(key \<mapsto> \<lparr>count = 1, start = now\<rparr>)))
   \<and> (store key = Some e \<and> now - start e > 60000 \<longrightarrow>
      window_check key now store = (Next, store(key \<mapsto> \<lparr>count = 1, start = now\<rparr>)))
   \<and> (store key = Some e \<and> now - start e \<le> 60000 \<longrightarrow>
      window_check key now store =
        (if count e + 1 \<le> 30 then Next
         else Respond (Json 429 (JObj [(''error'', JStr ''rate_limited'')])),
         store(key \<mapsto> e\<lparr>count := count e + 1\<rparr>)))
   \<and> (key' \<noteq> key \<longrightarrow> snd (window_check key' now store) key = store key)
   \<and> (client_key req = Inr key \<longrightarrow>
      rateLimitMiddleware req now st =
        (fst (window_check key now (rateLimitStore st)),
         st\<lparr>rateLimitStore := snd (window_check key now (rateLimitStore st))\<rparr>))
   \<and> (opens_window store key t1 \<and> length rest = 30 \<and> (\<forall>t\<in>set rest. t - t1 \<le> 60000) \<longrightarrow>
      fst (window_run key (t1 # rest) store) = replicate 30 Next @ [rate_limited])
   \<and> (ts \<noteq> [] \<and> sorted ts \<and> started_by store key (hd ts) \<and> now - last ts > 60000 \<longrightarrow>
      window_check key now (snd (window_run key ts store))
        = (Next, (snd (window_run key ts store))(key \<mapsto> \<lparr>count = 1, start = now\<rparr>)))"
proof -
  have within: "store key = Some e \<and> now - start e \<le> 60000 \<longrightarrow>
      window_check key now store =
        (if count e + 1 \<le> 30 then Next
         else Respond (Json 429 (JObj [(''error'', JStr ''rate_limited'')])),
         store(key \<mapsto> e\<lparr>count := count e + 1\<rparr>))"
    using window_check_within [of store key e now] by (simp add: rate_limited_def)
  show ?thesis
    using within window_check_new [of store key now] window_check_expired [of store key e now]
      window_check_other_key [of key' key now store]
      rateLimitMiddleware_key [of req key now st]
      thirty_first_denied [of store key t1 rest]
      admitted_after_silence [of ts store key now]
    by blast
qed

theorem rate_governor_window_witness:
  "window_check ''10.0.0.1'' 5 (\<lambda>k. None) = (Next, [''10.0.0.1'' \<mapsto> \<lparr>count = 1, start = 5\<rparr>])
   \<and> window_check ''10.0.0.1'' 70000 [''10.0.0.1'' \<mapsto> \<lparr>count = 30, start = 5\<rparr>]
       = (Next, [''10.0.0.1'' \<mapsto> \<lparr>count = 1, start = 70000\<rparr>])
   \<and> window_check ''10.0.0.1'' 60005 [''10.0.0.1'' \<mapsto> \<lparr>count = 30, start = 5\<rparr>]
       = (Respond (Json 429 (JObj [(''error'', JStr ''rate_limited'')])),
          [''10.0.0.1'' \<mapsto> \<lparr>count = 31, start = 5\<rparr>])
   \<and> fst (window_run ''10.0.0.1'' (0 # replicate 30 1000) (\<lambda>k. None))
       = replicate 30 Next @ [rate_limited]
   \<and> fst (window_check ''10.0.0.1'' 61001
            (snd (window_run ''10.0.0.1'' (0 # replicate 30 1000) (\<lambda>k. None)))) = Next"
proof -
  let ?k = "''10.0.0.1''"
  let ?full = "[?k \<mapsto> \<lparr>count = 30, start = 5\<rparr>]"
  have a: "window_check ?k 5 (\<lambda>k. None) = (Next, [?k \<mapsto> \<lparr>count = 1, start = 5\<rparr>])"
    using rate_governor_window [where store = "\<lambda>k. None" and key = ?k and now = 5]
    by simp
  have b: "window_check ?k 70000 ?full = (Next, [?k \<mapsto> \<lparr>count = 1, start = 70000\<rparr>])"
    using rate_governor_window [where store = ?full and key = ?k and now = 70000
        and e = "\<lparr>count = 30, start = 5\<rparr>"]
    by simp
  have c: "window_check ?k 60005 ?full
       = (Respond (Json 429 (JObj [(''error'', JStr ''rate_limited'')])),
          [?k \<mapsto> \<lparr>count = 31, start = 5\<rparr>])"
    using rate_governor_window [where store = ?full and key = ?k and now = 60005
        and e = "\<lparr>count = 30, start = 5\<rparr>"]
    by simp
  have d: "fst (window_run ?k (0 # replicate 30 1000) (\<lambda>k. None))
       = replicate 30 Next @ [rate_limited]"
  proof -
    have "opens_window (\<lambda>k. None) ?k 0 \<and> length (replicate 30 (1000::int)) = 30
        \<and> (\<forall>t\<in>set (replicate 30 (1000::int)). t - 0 \<le> 60000)"
      by (simp add: opens_window_def)
    then show ?thesis
      using rate_governor_window [where store = "\<lambda>k. None" and key = ?k and ?t1.0 = 0
          and rest = "replicate 30 1000"]
      by blast
  qed
  have e: "fst (window_check ?k 61001
            (snd (window_run ?k (0 # replicate 30 1000) (\<lambda>k. None)))) = Next"
  proof -
    have "0 # replicate 30 (1000::int) \<noteq> [] \<and> sorted (0 # replicate 30 (1000::int))
        \<and> started_by (\<lambda>k. None) ?k (hd (0 # replicate 30 (1000::int)))
        \<and> 61001 - last (0 # replicate 30 (1000::int)) > 60000"
      by (simp add: started_by_def sorted_replicate)
    then have "window_check ?k 61001 (snd (window_run ?k (0 # replicate 30 1000) (\<lambda>k. None)))
        = (Next, (snd (window_run ?k (0 # replicate 30 1000) (\<lambda>k. None)))
                   (?k \<mapsto> \<lparr>count = 1, start = 61001\<rparr>))"
      using rate_governor_window [where store = "\<lambda>k. None" and key = ?k and now = 61001
          and ts = "0 # replicate 30 1000"]
      by blast
    then show ?thesis by (simp only: fst_conv)
  qed
  show ?thesis using a b c d e by blast
qed

text \<open>
  C10. The governor fails open: when the derivation of the client key throws, the
  middleware calls \<^verbatim>\<open>next()\<close> and leaves the state as it is, so both routes run
  their handler and no 429 or 500 comes from the governor. In the model the key
  derivation is the only step of the check that can throw; reading and writing the
  \<^verbatim>\<open>Map\<close> cannot.
\<close>

theorem rate_governor_fails_open:
  "getClientIp req = Inl err \<Longrightarrow>
   rateLimitMiddleware req now st = (Next, st)
   \<and> post_risk_assess bi w req now st = risk_assess_handler bi w (body req) st
   \<and> post_tts bi api_key voice_id fetched req now st
       = (tts_handler bi api_key voice_id fetched (body req), st)"
  by (simp add: rateLimitMiddleware_fails_open post_risk_assess_def post_tts_def)

theorem rate_governor_fails_open_witness:
  "getClientIp \<lparr>x_forwarded_for = JArr [JStr ''10.0.0.1''], ip = Some ''10.0.0.9'', body = JObj []\<rparr>
     = Inl TypeError
   \<and> rateLimitMiddleware
        \<lparr>x_forwarded_for = JArr [JStr ''10.0.0.1''], ip = Some ''10.0.0.9'', body = JObj []\<rparr>
        0 fresh_server = (Next, fresh_server)"
proof -
  let ?req = "\<lparr>x_forwarded_for = JArr [JStr ''10.0.0.1''], ip = Some ''10.0.0.9'', body = JObj []\<rparr>"
  have t: "getClientIp ?req = Inl TypeError"
    by (simp add: getClientIp_def)
  show ?thesis
    using t rate_governor_fails_open [OF t, of 0 fresh_server] by simp
qed

section \<open>Properties of placeholder credentials\<close>

lemma take_eq_iff_prefix: "(take (length w) s = w) = (\<exists>ss. s = w @ ss)"
proof
  assume "take (length w) s = w"
  then have "s = w @ drop (length w) s" by (metis append_take_drop_id)
  then show "\<exists>ss. s = w @ ss" ..
next
  assume "\<exists>ss. s = w @ ss"
  then show "take (length w) s = w" by auto
qed

lemma contains_iff: "contains w s = (\<exists>ps ss. s = ps @ w @ ss)"
proof (induction s)
  case Nil
  then show ?case by auto
next
  case (Cons c cs)
  show ?case
  proof
    assume "contains w (c # cs)"
    then consider "take (length w) (c # cs) = w" | "contains w cs" by auto
    then show "\<exists>ps ss. c # cs = ps @ w @ ss"
    proof cases
      case 1
      then obtain ss where "c # cs = w @ ss" using take_eq_iff_prefix by blast
      then have "c # cs = [] @ w @ ss" by simp
      then show ?thesis by blast
    next
      case 2
      then obtain ps ss where "cs = ps @ w @ ss" using Cons.IH by blast
      then have "c # cs = (c # ps) @ w @ ss" by simp
      then show ?thesis by blast
    qed
  next
    assume "\<exists>ps ss. c # cs = ps @ w @ ss"
    then obtain ps ss where eq: "c # cs = ps @ w @ ss" by blast
    show "contains w (c # cs)"
    proof (cases ps)
      case Nil
      then have "take (length w) (c # cs) = w" using eq take_eq_iff_prefix by auto
      then show ?thesis by simp
    next
      case (Cons p ps')
      then have "cs = ps' @ w @ ss" using eq by simp
      then have "contains w cs" using Cons.IH by blast
      then show ?thesis by simp
    qed
  qed
qed

lemma toLowerCase_append: "toLowerCase (a @ b) = toLowerCase a @ toLowerCase b"
  by (simp add: toLowerCase_def)

lemma map_eq_append3:
  assumes "map f s = ps @ m @ ss"
  shows "\<exists>b u a. s = b @ u @ a \<and> map f u = m"
proof -
  obtain us vs where 1: "s = us @ vs" "map f vs = m @ ss"
    using assms by (metis map_eq_append_conv)
  obtain u a where 2: "vs = u @ a" "map f u = m"
    using 1(2) by (metis map_eq_append_conv)
  show ?thesis using 1(1) 2 by blast
qed

lemma contains_lower_iff:
  "contains (toLowerCase w) (toLowerCase s) = contains_ignoring_case s w"
proof
  assume "contains (toLowerCase w) (toLowerCase s)"
  then obtain ps ss where "toLowerCase s = ps @ toLowerCase w @ ss"
    using contains_iff by blast
  then have "map toLowerCase_char s = ps @ map toLowerCase_char w @ ss"
    by (simp add: toLowerCase_def)
  then have "\<exists>b u a. s = b @ u @ a \<and> map toLowerCase_char u = map toLowerCase_char w"
    by (rule map_eq_append3)
  then have "\<exists>b u a. s = b @ u @ a \<and> toLowerCase u = toLowerCase w"
    by (simp add: toLowerCase_def)
  then show "contains_ignoring_case s w"
    unfolding contains_ignoring_case_def by blast
next
  assume "contains_ignoring_case s w"
  then obtain b u a where "s = b @ u @ a" "toLowerCase u = toLowerCase w"
    unfolding contains_ignoring_case_def by blast
  then have "toLowerCase s = toLowerCase b @ toLowerCase w @ toLowerCase a"
    by (simp add: toLowerCase_append)
  then show "contains (toLowerCase w) (toLowerCase s)"
    using contains_iff by blast
qed

lemma words_lower: "w \<in> set placeholder_words \<Longrightarrow> toLowerCase w = w"
  by (auto simp: placeholder_words_def toLowerCase_def toLowerCase_char_def)

lemma regex_iff:
  "placeholder_regex_test (toLowerCase v) = (\<exists>w\<in>set placeholder_words. contains_ignoring_case v w)"
proof -
  have "placeholder_regex_test (toLowerCase v) = (\<exists>w\<in>set placeholder_words. contains w (toLowerCase v))"
    by (simp add: placeholder_regex_test_def placeholder_words_def)
  also have "\<dots> = (\<exists>w\<in>set placeholder_words. contains (toLowerCase w) (toLowerCase v))"
    using words_lower by auto
  finally show ?thesis by (simp add: contains_lower_iff)
qed

lemma isPlaceholderKey_iff:
  "isPlaceholderKey k =
     (k = None \<or> k = Some [] \<or> (\<exists>v w. k = Some v \<and> w \<in> set placeholder_words \<and> contains_ignoring_case v w))"
  by (cases k) (auto simp: isPlaceholderKey_def regex_iff)

section \<open>Properties of the risk assessment handler\<close>

lemma first_missing_obj:
  "first_missing (JObj kvs) fs = Inr (find (\<lambda>f. map_of kvs f = None) fs)"
  by (induction fs) (auto simp: thenE_def)

lemma first_missing_arr:
  "first_missing (JArr xs) fs = Inr (case fs of [] \<Rightarrow> None | f # rest \<Rightarrow> Some f)"
  by (cases fs) (auto simp: thenE_def)

lemma sendResult_fst:
  "fst (sendResult w b obj model st) = Json 200 (JObj (set_entry ''model'' (JStr model) (own_props obj)))"
  by (simp add: sendResult_def Let_def)

lemma respond_fallback_returns:
  "fallbackRisk bi b = Inr out \<Longrightarrow>
   respond_fallback bi w b st = Inr (sendResult w b out ''fallback'' st)"
  by (simp add: respond_fallback_def thenE_def)

lemma respond_fallback_throws:
  "fallbackRisk bi b = Inl e \<Longrightarrow> respond_fallback bi w b st = Inl e"
  by (simp add: respond_fallback_def thenE_def)

lemma finish_returns:
  "finish st c (Inr p) = (Sent (fst p), c, snd p)"
  by (cases p) (simp add: finish_def)

lemma handler_missing:
  "first_missing (js_or rb (JObj [])) required = Inr (Some f) \<Longrightarrow>
   risk_assess_handler bi w rb st
     = (Sent (Json 400 (JObj [(''error'', JStr (''missing_'' @ f))])), False, st)"
  by (simp add: risk_assess_handler_def Let_def)

lemma handler_placeholder:
  "first_missing (js_or rb (JObj [])) required = Inr None \<Longrightarrow>
   isPlaceholderKey (GEMINI_API_KEY w) \<Longrightarrow>
   risk_assess_handler bi w rb st
     = finish st False (respond_fallback bi w (js_or rb (JObj [])) st)"
  by (simp add: risk_assess_handler_def Let_def)

lemma handler_provider:
  "first_missing (js_or rb (JObj [])) required = Inr None \<Longrightarrow>
   \<not> isPlaceholderKey (GEMINI_API_KEY w) \<Longrightarrow>
   risk_assess_handler bi w rb st
     = (case risk_try bi w (js_or rb (JObj [])) st of
          Inr r \<Rightarrow> finish st True (Inr r)
        | Inl e \<Rightarrow> finish st True (respond_fallback bi w (js_or rb (JObj [])) st))"
  by (simp add: risk_assess_handler_def Let_def)

lemma both_parses_fail_null:
  "both_parses_fail bi text \<Longrightarrow> parse_provider_text bi text = JNull"
  by (auto simp: both_parses_fail_def parse_provider_text_def Let_def split: if_splits)

lemma risk_try_failure:
  assumes "provider_failure bi w"
  shows "risk_try bi w b st = respond_fallback bi w b st
     \<or> (\<exists>e. risk_try bi w b st = Inl e)"
proof (cases "gemini w")
  case ProviderThrows
  then show ?thesis by (simp add: risk_try_def)
next
  case (ProviderText answer)
  let ?p = "parse_provider_text bi answer"
  have nf: "score_not_finite bi ?p"
    using assms ProviderText both_parses_fail_null [of bi answer]
    by (auto simp: provider_failure_def score_not_finite_def)
  show ?thesis
  proof (cases "truthy ?p")
    case False
    then show ?thesis using ProviderText by (simp add: risk_try_def Let_def)
  next
    case True
    then show ?thesis
      using ProviderText nf
      by (cases "ToNumber bi (get_prop ?p ''riskScore'')")
        (auto simp: risk_try_def Let_def thenE_def score_not_finite_def)
  qed
qed

lemma handler_provider_failure:
  assumes "first_missing (js_or rb (JObj [])) required = Inr None"
    and "\<not> isPlaceholderKey (GEMINI_API_KEY w)"
    and "provider_failure bi w"
  shows "risk_assess_handler bi w rb st
     = finish st True (respond_fallback bi w (js_or rb (JObj [])) st)"
proof -
  let ?b = "js_or rb (JObj [])"
  consider "risk_try bi w ?b st = respond_fallback bi w ?b st" | e where "risk_try bi w ?b st = Inl e"
    using risk_try_failure [OF assms(3)] by blast
  then show ?thesis
  proof cases
    case 1
    then show ?thesis
      using handler_provider [OF assms(1,2)]
      by (cases "respond_fallback bi w ?b st") simp_all
  next
    case 2
    then show ?thesis using handler_provider [OF assms(1,2)] by simp
  qed
qed

lemma risk_try_sends_200:
  "risk_try bi w b st = Inr (r, st') \<Longrightarrow> \<exists>payload. r = Json 200 payload"
  by (auto simp: risk_try_def respond_fallback_def thenE_def Let_def sendResult_def
      split: provider_result.splits if_splits sum.splits)

lemma respond_fallback_sends_200:
  "respond_fallback bi w b st = Inr (r, st') \<Longrightarrow> \<exists>payload. r = Json 200 payload"
  by (auto simp: respond_fallback_def thenE_def Let_def sendResult_def split: sum.splits)

lemma risk_try_unless_fallback_throws:
  "fallbackRisk bi b = Inr out \<Longrightarrow> risk_try bi w b st = Inl e \<Longrightarrow>
   \<exists>text. gemini w = ProviderText text
     \<and> ToNumber bi (get_prop (parse_provider_text bi text) ''riskScore'') = Inl e"
  by (auto simp: risk_try_def respond_fallback_def thenE_def Let_def
      split: provider_result.splits if_splits sum.splits)

lemma handler_validated:
  assumes "first_missing (js_or rb (JObj [])) required = Inr None"
  shows "(\<exists>payload c st'. risk_assess_handler bi w rb st = (Sent (Json 200 payload), c, st'))
     \<or> (\<exists>e c. risk_assess_handler bi w rb st = (Uncaught e, c, st)
           \<and> fallbackRisk bi (js_or rb (JObj [])) = Inl e)"
proof -
  let ?b = "js_or rb (JObj [])"
  have fb: "\<And>c. (\<exists>payload st'. finish st c (respond_fallback bi w ?b st) = (Sent (Json 200 payload), c, st'))
     \<or> (\<exists>e. finish st c (respond_fallback bi w ?b st) = (Uncaught e, c, st) \<and> fallbackRisk bi ?b = Inl e)"
  proof -
    fix c
    show "(\<exists>payload st'. finish st c (respond_fallback bi w ?b st) = (Sent (Json 200 payload), c, st'))
     \<or> (\<exists>e. finish st c (respond_fallback bi w ?b st) = (Uncaught e, c, st) \<and> fallbackRisk bi ?b = Inl e)"
    proof (cases "fallbackRisk bi ?b")
      case (Inl e)
      then show ?thesis by (simp add: respond_fallback_throws finish_def)
    next
      case (Inr out)
      then show ?thesis
        by (simp add: respond_fallback_returns finish_returns sendResult_fst)
    qed
  qed
  show ?thesis
  proof (cases "isPlaceholderKey (GEMINI_API_KEY w)")
    case True
    then show ?thesis using handler_placeholder [OF assms True] fb [of False] by metis
  next
    case False
    show ?thesis
    proof (cases "risk_try bi w ?b st")
      case (Inl e)
      then show ?thesis using handler_provider [OF assms False] fb [of True] by (metis sum.simps(5))
    next
      case (Inr r)
      obtain resp st' where r: "r = (resp, st')" by (cases r)
      then obtain payload where "resp = Json 200 payload"
        using risk_try_sends_200 Inr by blast
      then show ?thesis
        using handler_provider [OF assms False, of bi st] Inr r by (auto simp: finish_def)
    qed
  qed
qed

lemma map_of_set_entry: "map_of (set_entry k v kvs) = (map_of kvs)(k \<mapsto> v)"
  by (induction kvs) (auto simp: fun_eq_iff)

lemma get_prop_set_entry:
  "get_prop (JObj (set_entry k v kvs)) k' = (if k' = k then v else get_prop (JObj kvs) k')"
  by (simp add: map_of_set_entry)

lemma get_prop_own_props: "get_prop (JObj (own_props obj)) k = get_prop obj k"
  by (cases obj) simp_all

lemma finite_score_is_object:
  "ToNumber bi (get_prop parsed ''riskScore'') = Inr (Fin q) \<Longrightarrow> \<exists>kvs. parsed = JObj kvs"
  by (cases parsed) simp_all

lemma risk_try_success:
  assumes "gemini w = ProviderText answer"
    and "parse_provider_text bi answer = parsed"
    and "truthy parsed"
    and "ToNumber bi (get_prop parsed ''riskScore'') = Inr (Fin q)"
  shows "risk_try bi w b st =
     Inr (sendResult w b (set_prop parsed ''riskScore'' (JNum (Fin (max 0 (min 100 q))))) ''gemini'' st)"
  using assms by (simp add: risk_try_def Let_def thenE_def)

lemma handler_provider_success:
  assumes "first_missing (js_or rb (JObj [])) required = Inr None"
    and "\<not> isPlaceholderKey (GEMINI_API_KEY w)"
    and "gemini w = ProviderText answer"
    and "parse_provider_text bi answer = parsed"
    and "truthy parsed"
    and "ToNumber bi (get_prop parsed ''riskScore'') = Inr (Fin q)"
  shows "fst (risk_assess_handler bi w rb st) =
     Sent (Json 200 (JObj (set_entry ''model'' (JStr ''gemini'')
        (set_entry ''riskScore'' (JNum (Fin (max 0 (min 100 q)))) (own_props parsed)))))"
proof -
  obtain kvs where p: "parsed = JObj kvs"
    using finite_score_is_object [OF assms(6)] by blast
  show ?thesis
    using handler_provider [OF assms(1,2), of bi st] risk_try_success [OF assms(3-6)]
    by (simp add: finish_returns sendResult_fst p)
qed

lemma sendResult_memory:
  assumes "sendResult w b obj m st = (Json 200 payload, st')"
  shows "if get_prop payload ''riskLevel'' = JStr ''LOW''
     then MEMORY st' = \<lparr>hasMemory = True,
                         lastLowScenarioId = js_or (get_prop b ''scenarioId'') JNull,
                         lastSaferAction = js_or (get_prop payload ''saferAction'') JNull\<rparr>
          \<and> rateLimitStore st' = rateLimitStore st
     else st' = st"
proof -
  have payload: "payload = JObj (set_entry ''model'' (JStr m) (own_props obj))"
    using assms by (simp add: sendResult_def Let_def)
  have level: "get_prop payload ''riskLevel'' = get_prop obj ''riskLevel''"
    and action: "get_prop payload ''saferAction'' = get_prop obj ''saferAction''"
    unfolding payload by (simp_all del: get_prop.simps add: get_prop_set_entry get_prop_own_props)
  have tr: "get_prop obj ''riskLevel'' = JStr ''LOW'' \<Longrightarrow> truthy obj"
    by (cases obj) simp_all
  show ?thesis
    using assms tr unfolding level action
    by (auto simp: sendResult_def Let_def saveMemory_def)
qed

lemma respond_fallback_is_sendResult:
  "respond_fallback bi w b st = Inr p \<Longrightarrow> \<exists>obj m. p = sendResult w b obj m st"
  by (auto simp: respond_fallback_def thenE_def split: sum.splits)

lemma risk_try_is_sendResult:
  "risk_try bi w b st = Inr p \<Longrightarrow> \<exists>obj m. p = sendResult w b obj m st"
  by (auto simp: risk_try_def respond_fallback_def thenE_def Let_def
      split: provider_result.splits if_splits sum.splits)

lemma handler_cases:
  assumes "risk_assess_handler bi w rb st = (out, c, st')"
  shows "(st' = st \<and> (\<exists>f. out = Sent (Json 400 (JObj [(''error'', JStr (''missing_'' @ f))]))))
     \<or> (st' = st \<and> (\<exists>e. out = Uncaught e))
     \<or> (truthy rb \<and> (\<exists>obj m r. sendResult w rb obj m st = (r, st') \<and> out = Sent r))"
proof (cases "first_missing (js_or rb (JObj [])) required")
  case (Inl e)
  then show ?thesis using assms by (auto simp: risk_assess_handler_def Let_def)
next
  case (Inr found)
  show ?thesis
  proof (cases found)
    case (Some f)
    then show ?thesis using assms Inr by (auto simp: handler_missing)
  next
    case None
    have tr: "truthy rb"
    proof (rule ccontr)
      assume "\<not> truthy rb"
      then have "js_or rb (JObj []) = JObj []" by (simp add: js_or_def)
      then show False using Inr None by (simp add: required_def thenE_def)
    qed
    then have b: "js_or rb (JObj []) = rb" by (simp add: js_or_def)
    let ?G = ?thesis
    have fin: "?G" if h: "risk_assess_handler bi w rb st = finish st c0 r"
        and r: "r = respond_fallback bi w rb st \<or> r = risk_try bi w rb st" for c0 r
    proof (cases r)
      case (Inl e)
      then show ?thesis using h assms by (auto simp: finish_def)
    next
      case (Inr p)
      then obtain obj m where p: "p = sendResult w rb obj m st"
        using r respond_fallback_is_sendResult risk_try_is_sendResult by metis
      have "risk_assess_handler bi w rb st = (Sent (fst p), c0, snd p)"
        using h Inr by (simp add: finish_returns)
      then have "out = Sent (fst p)" and "st' = snd p"
        using assms by simp_all
      moreover have "sendResult w rb obj m st = (fst p, snd p)"
        using p by simp
      ultimately show ?thesis using tr by blast
    qed
    show ?thesis
    proof (cases "isPlaceholderKey (GEMINI_API_KEY w)")
      case True
      then show ?thesis
        using handler_placeholder [of rb w bi st] Inr None fin unfolding b by simp
    next
      case False
      have hp: "risk_assess_handler bi w rb st
         = (case risk_try bi w rb st of
              Inr r \<Rightarrow> finish st True (Inr r)
            | Inl e \<Rightarrow> finish st True (respond_fallback bi w rb st))"
        using handler_provider [of rb w bi st] Inr None False unfolding b by simp
      show ?thesis
      proof (cases "risk_try bi w rb st")
        case (Inl e)
        then show ?thesis using hp fin by simp
      next
        case (Inr p)
        then show ?thesis using hp fin [of True "risk_try bi w rb st"] by simp
      qed
    qed
  qed
qed

lemma handler_memory:
  assumes "risk_assess_handler bi w rb st = (out, c, st')"
  shows "(\<forall>payload. out = Sent (Json 200 payload) \<and> get_prop payload ''riskLevel'' = JStr ''LOW'' \<longrightarrow>
            MEMORY st' = \<lparr>hasMemory = True,
                          lastLowScenarioId = js_or (get_prop rb ''scenarioId'') JNull,
                          lastSaferAction = js_or (get_prop payload ''saferAction'') JNull\<rparr>)
     \<and> ((\<forall>payload. out = Sent (Json 200 payload) \<longrightarrow> get_prop payload ''riskLevel'' \<noteq> JStr ''LOW'')
            \<longrightarrow> st' = st)"
proof -
  consider (bad) "st' = st" "\<exists>f. out = Sent (Json 400 (JObj [(''error'', JStr (''missing_'' @ f))]))"
    | (thrown) "st' = st" "\<exists>e. out = Uncaught e"
    | (sent) obj m r where "sendResult w rb obj m st = (r, st')" "out = Sent r"
    using handler_cases [OF assms] by blast
  then show ?thesis
  proof cases
    case bad
    then show ?thesis by auto
  next
    case thrown
    then show ?thesis by auto
  next
    case sent
    obtain payload where r: "r = Json 200 payload"
      using sent(1) sendResult_fst [of w rb obj m st] by simp
    show ?thesis
      using sendResult_memory [of w rb obj m st payload st'] sent r
      by (auto split: if_splits)
  qed
qed

lemma sendResult_write:
  "fst (sendResult (w\<lparr>writeFileSync_ok := ok\<rparr>) b obj m st) = fst (sendResult w b obj m st)
   \<and> MEMORY (snd (sendResult (w\<lparr>writeFileSync_ok := ok\<rparr>) b obj m st))
       = MEMORY (snd (sendResult w b obj m st))"
  by (simp add: sendResult_def saveMemory_def Let_def)

lemma respond_fallback_write:
  "seen (respond_fallback bi (w\<lparr>writeFileSync_ok := ok\<rparr>) b st) = seen (respond_fallback bi w b st)"
  by (cases "fallbackRisk bi b")
    (simp_all add: respond_fallback_def thenE_def seen_def sendResult_write)

lemma risk_try_write:
  "seen (risk_try bi (w\<lparr>writeFileSync_ok := ok\<rparr>) b st) = seen (risk_try bi w b st)"
proof (cases "gemini w")
  case ProviderThrows
  then show ?thesis by (simp add: risk_try_def respond_fallback_write)
next
  case (ProviderText answer)
  let ?p = "parse_provider_text bi answer"
  show ?thesis
  proof (cases "ToNumber bi (get_prop ?p ''riskScore'')")
    case (Inl e)
    then show ?thesis
      using ProviderText
      by (simp add: risk_try_def Let_def thenE_def respond_fallback_write;
          simp add: seen_def)
  next
    case (Inr n)
    then show ?thesis
      using ProviderText
      by (simp add: risk_try_def Let_def thenE_def respond_fallback_write;
          simp add: seen_def sendResult_write)
  qed
qed

lemma finish_seen:
  "seen r1 = seen r2 \<Longrightarrow>
   fst (finish st c r1) = fst (finish st c r2)
   \<and> fst (snd (finish st c r1)) = fst (snd (finish st c r2))
   \<and> MEMORY (snd (snd (finish st c r1))) = MEMORY (snd (snd (finish st c r2)))"
  by (cases r1; cases r2) (auto simp: seen_def finish_def split: prod.splits)

lemma write_independent:
  "fst (risk_assess_handler bi (w\<lparr>writeFileSync_ok := ok\<rparr>) rb st) = fst (risk_assess_handler bi w rb st)
   \<and> fst (snd (risk_assess_handler bi (w\<lparr>writeFileSync_ok := ok\<rparr>) rb st)) = fst (snd (risk_assess_handler bi w rb st))
   \<and> MEMORY (snd (snd (risk_assess_handler bi (w\<lparr>writeFileSync_ok := ok\<rparr>) rb st)))
       = MEMORY (snd (snd (risk_assess_handler bi w rb st)))"
proof -
  let ?w = "w\<lparr>writeFileSync_ok := ok\<rparr>"
  let ?b = "js_or rb (JObj [])"
  show ?thesis
  proof (cases "first_missing ?b required")
    case (Inl e)
    then show ?thesis by (simp add: risk_assess_handler_def Let_def)
  next
    case (Inr found)
    show ?thesis
    proof (cases found)
      case (Some f)
      then show ?thesis using Inr by (simp add: handler_missing)
    next
      case None
      then have v: "first_missing ?b required = Inr None" using Inr by simp
      show ?thesis
      proof (cases "isPlaceholderKey (GEMINI_API_KEY w)")
        case True
        then have "isPlaceholderKey (GEMINI_API_KEY ?w)" by simp
        then show ?thesis
          using handler_placeholder [OF v True, of bi st]
            handler_placeholder [OF v, of ?w bi st]
            finish_seen [OF respond_fallback_write [where bi = bi and w = w and ok = ok and b = ?b and st = st], of st False]
          by simp
      next
        case False
        then have k: "\<not> isPlaceholderKey (GEMINI_API_KEY ?w)" by simp
        have rt: "seen (risk_try bi ?w ?b st) = seen (risk_try bi w ?b st)"
          by (rule risk_try_write)
        show ?thesis
        proof (cases "risk_try bi w ?b st")
          case (Inl e)
          then obtain e' where "risk_try bi ?w ?b st = Inl e'"
            using rt by (cases "risk_try bi ?w ?b st") (simp_all add: seen_def)
          then show ?thesis
            using Inl handler_provider [OF v False, of bi st] handler_provider [OF v k, of bi st]
              finish_seen [OF respond_fallback_write [where bi = bi and w = w and ok = ok and b = ?b and st = st], of st True]
            by simp
        next
          case (Inr p)
          then obtain p' where p': "risk_try bi ?w ?b st = Inr p'"
            using rt by (cases "risk_try bi ?w ?b st") (simp_all add: seen_def)
          then have "seen (Inr p') = seen (Inr p)" using rt Inr by simp
          then show ?thesis
            using Inr p' handler_provider [OF v False, of bi st] handler_provider [OF v k, of bi st]
              finish_seen [of "Inr p'" "Inr p" st True]
            by simp
        qed
      qed
    qed
  qed
qed

lemma sendResult_gemini_irrelevant:
  "sendResult (w\<lparr>gemini := g\<rparr>) b obj m st = sendResult w b obj m st"
  by (simp add: sendResult_def saveMemory_def Let_def)

lemma handler_placeholder_ignores_provider:
  assumes "first_missing (js_or rb (JObj [])) required = Inr None"
    and "isPlaceholderKey (GEMINI_API_KEY w)"
  shows "risk_assess_handler bi (w\<lparr>gemini := g\<rparr>) rb st = risk_assess_handler bi w rb st"
proof -
  have "isPlaceholderKey (GEMINI_API_KEY (w\<lparr>gemini := g\<rparr>))" using assms(2) by simp
  then show ?thesis
    using handler_placeholder [OF assms(1), of "w\<lparr>gemini := g\<rparr>" bi st]
      handler_placeholder [OF assms, of bi st]
    by (simp add: respond_fallback_def sendResult_gemini_irrelevant)
qed

lemmas eval_defs = risk_assess_handler_def risk_try_def respond_fallback_def sendResult_def
  saveMemory_def finish_def thenE_def Let_def js_or_def js_and_def required_def
  fallbackRisk_def fallback_score_def fallback_level_def fallback_reasoning_def clamp_def
  guardian_message_def safer_action_def isPlaceholderKey_def placeholder_regex_test_def
  toLowerCase_def toLowerCase_char_def

lemma fallbackRisk_morning_commute:
  "fallbackRisk bi morning_commute =
     Inr (JObj [(''riskScore'', JNum (Fin 10)),
                (''riskLevel'', JStr ''LOW''),
                (''reasoning'', JStr ''Score computed from inputs: timeOfDay=day, userAlone=false, neighborhoodType=downtown, routeLighting=good''),
                (''guardianMessage'', JStr ''Low risk detected. Exercise normal caution.''),
                (''saferAction'', JStr ''Proceed but remain aware of surroundings.'')])"
  by (simp add: morning_commute_def fallbackRisk_def fallback_score_def
      fallback_level_def fallback_reasoning_def thenE_def js_and_def clamp_def
      guardian_message_def safer_action_def)

lemma morning_commute_valid: "first_missing (js_or morning_commute (JObj [])) required = Inr None"
  by (simp add: morning_commute_def js_or_def required_def thenE_def)

text \<open>
  C6. A provider credential counts as absent exactly when it is unset, empty, or
  contains one of the words your, placeholder, change, replace, xxxx, example, whatever
  the case of its letters; the speech handler's copy of the test agrees. Whenever the
  credential is so classified and the five fields are present, the handler does not
  enter the provider call, its result does not depend on what the provider would
  answer, and the response is the result of the fallback heuristic with
  \<^verbatim>\<open>model\<close> set to \<^verbatim>\<open>fallback\<close> (if the heuristic throws, so does the handler).
\<close>

theorem placeholder_key_means_fallback:
  "(isPlaceholderKey k =
      (k = None \<or> k = Some [] \<or>
       (\<exists>v word. k = Some v \<and> word \<in> set placeholder_words \<and> contains_ignoring_case v word)))
   \<and> isPlaceholder k = isPlaceholderKey k
   \<and> (first_missing (js_or rb (JObj [])) required = Inr None
        \<and> isPlaceholderKey (GEMINI_API_KEY w) \<longrightarrow>
          fst (snd (risk_assess_handler bi w rb st)) = False
          \<and> risk_assess_handler bi (w\<lparr>gemini := g\<rparr>) rb st = risk_assess_handler bi w rb st
          \<and> (\<forall>out. fallbackRisk bi (js_or rb (JObj [])) = Inr out \<longrightarrow>
                fst (risk_assess_handler bi w rb st)
                  = Sent (Json 200 (JObj (set_entry ''model'' (JStr ''fallback'') (own_props out)))))
          \<and> (\<forall>e. fallbackRisk bi (js_or rb (JObj [])) = Inl e \<longrightarrow>
                fst (risk_assess_handler bi w rb st) = Uncaught e))"
proof -
  have a: "isPlaceholderKey k =
      (k = None \<or> k = Some [] \<or>
       (\<exists>v word. k = Some v \<and> word \<in> set placeholder_words \<and> contains_ignoring_case v word))"
    by (rule isPlaceholderKey_iff)
  have b: "isPlaceholder k = isPlaceholderKey k"
    by (simp add: isPlaceholder_def isPlaceholderKey_def)
  have c: "fst (snd (risk_assess_handler bi w rb st)) = False
          \<and> risk_assess_handler bi (w\<lparr>gemini := g\<rparr>) rb st = risk_assess_handler bi w rb st
          \<and> (\<forall>out. fallbackRisk bi (js_or rb (JObj [])) = Inr out \<longrightarrow>
                fst (risk_assess_handler bi w rb st)
                  = Sent (Json 200 (JObj (set_entry ''model'' (JStr ''fallback'') (own_props out)))))
          \<and> (\<forall>e. fallbackRisk bi (js_or rb (JObj [])) = Inl e \<longrightarrow>
                fst (risk_assess_handler bi w rb st) = Uncaught e)"
    if v: "first_missing (js_or rb (JObj [])) required = Inr None"
      and p: "isPlaceholderKey (GEMINI_API_KEY w)"
  proof -
    let ?b = "js_or rb (JObj [])"
    have h: "risk_assess_handler bi w rb st = finish st False (respond_fallback bi w ?b st)"
      using v p by (rule handler_placeholder)
    have "fst (snd (risk_assess_handler bi w rb st)) = False"
      unfolding h by (cases "respond_fallback bi w ?b st") (auto simp: finish_def)
    moreover have "risk_assess_handler bi (w\<lparr>gemini := g\<rparr>) rb st = risk_assess_handler bi w rb st"
      using v p by (rule handler_placeholder_ignores_provider)
    moreover have "fst (risk_assess_handler bi w rb st)
          = Sent (Json 200 (JObj (set_entry ''model'' (JStr ''fallback'') (own_props out))))"
      if "fallbackRisk bi ?b = Inr out" for out
      unfolding h using that
      by (simp add: respond_fallback_returns finish_returns sendResult_fst)
    moreover have "fst (risk_assess_handler bi w rb st) = Uncaught e"
      if "fallbackRisk bi ?b = Inl e" for e
      unfolding h using that by (simp add: respond_fallback_throws finish_def)
    ultimately show ?thesis by blast
  qed
  show ?thesis using a b c by blast
qed

theorem placeholder_key_means_fallback_witness:
  "isPlaceholderKey (Some ''YOUR-Api-Key-Here'')
   \<and> fst (risk_assess_handler example_builtins
        (example_world\<lparr>GEMINI_API_KEY := Some ''YOUR-Api-Key-Here'',
                        gemini := ProviderText answer_null_score\<rparr>)
        morning_commute fresh_server)
      = Sent (Json 200 (JObj
          [(''riskScore'', JNum (Fin 10)),
           (''riskLevel'', JStr ''LOW''),
           (''reasoning'', JStr ''Score computed from inputs: timeOfDay=day, userAlone=false, neighborhoodType=downtown, routeLighting=good''),
           (''guardianMessage'', JStr ''Low risk detected. Exercise normal caution.''),
           (''saferAction'', JStr ''Proceed but remain aware of surroundings.''),
           (''model'', JStr ''fallback'')]))
   \<and> fst (snd (risk_assess_handler example_builtins
        (example_world\<lparr>GEMINI_API_KEY := Some ''YOUR-Api-Key-Here'',
                        gemini := ProviderText answer_null_score\<rparr>)
        morning_commute fresh_server)) = False"
proof -
  let ?k = "Some ''YOUR-Api-Key-Here''"
  let ?w = "example_world\<lparr>GEMINI_API_KEY := ?k, gemini := ProviderText answer_null_score\<rparr>"
  let ?out = "JObj [(''riskScore'', JNum (Fin 10)),
                (''riskLevel'', JStr ''LOW''),
                (''reasoning'', JStr ''Score computed from inputs: timeOfDay=day, userAlone=false, neighborhoodType=downtown, routeLighting=good''),
                (''guardianMessage'', JStr ''Low risk detected. Exercise normal caution.''),
                (''saferAction'', JStr ''Proceed but remain aware of surroundings.'')]"
  have "''YOUR-Api-Key-Here'' = [] @ ''YOUR'' @ ''-Api-Key-Here''
      \<and> toLowerCase ''YOUR'' = toLowerCase ''your''"
    by (simp add: toLowerCase_def toLowerCase_char_def)
  then have ci: "contains_ignoring_case ''YOUR-Api-Key-Here'' ''your''"
    unfolding contains_ignoring_case_def by blast
  have "''your'' \<in> set placeholder_words" by (simp add: placeholder_words_def)
  then have "\<exists>v word. ?k = Some v \<and> word \<in> set placeholder_words
      \<and> contains_ignoring_case v word"
    using ci by blast
  then have k: "isPlaceholderKey ?k"
    using placeholder_key_means_fallback [where k = ?k, THEN conjunct1] by (rule_tac iffD2) auto
  then have kw: "isPlaceholderKey (GEMINI_API_KEY ?w)" by simp
  note handler = placeholder_key_means_fallback [where rb = morning_commute and w = ?w
      and bi = example_builtins and st = fresh_server, THEN conjunct2, THEN conjunct2, rule_format]
  have c: "fst (snd (risk_assess_handler example_builtins ?w morning_commute fresh_server)) = False"
    and d: "\<forall>out. fallbackRisk example_builtins (js_or morning_commute (JObj [])) = Inr out \<longrightarrow>
        fst (risk_assess_handler example_builtins ?w morning_commute fresh_server)
          = Sent (Json 200 (JObj (set_entry ''model'' (JStr ''fallback'') (own_props out))))"
    using handler [OF conjI [OF morning_commute_valid kw]] by blast+
  have "js_or morning_commute (JObj []) = morning_commute"
    by (simp add: js_or_def morning_commute_def)
  then have "fallbackRisk example_builtins (js_or morning_commute (JObj [])) = Inr ?out"
    using fallbackRisk_morning_commute [of example_builtins] by simp
  then have "fst (risk_assess_handler example_builtins ?w morning_commute fresh_server)
      = Sent (Json 200 (JObj (set_entry ''model'' (JStr ''fallback'') (own_props ?out))))"
    using d by blast
  then show ?thesis using k c by simp
qed

lemma find_None_all: "(find P xs = None) = (\<forall>x\<in>set xs. \<not> P x)"
  by (induction xs) auto

lemma all_null_valid: "first_missing (js_or all_null (JObj [])) required = Inr None"
  by (simp add: all_null_def js_or_def required_def thenE_def)

lemma fallbackRisk_all_null:
  "fallbackRisk bi all_null =
     Inr (JObj [(''riskScore'', JNum (Fin 0)),
                (''riskLevel'', JStr ''LOW''),
                (''reasoning'', JStr ''Score computed from inputs: timeOfDay=null, userAlone=null, neighborhoodType=null, routeLighting=null''),
                (''guardianMessage'', JStr ''Low risk detected. Exercise normal caution.''),
                (''saferAction'', JStr ''Proceed but remain aware of surroundings.'')])"
  by (simp add: all_null_def fallbackRisk_def fallback_score_def
      fallback_level_def fallback_reasoning_def thenE_def js_and_def clamp_def
      guardian_message_def safer_action_def)

lemma all_null_response:
  assumes "isPlaceholderKey (GEMINI_API_KEY w)"
  shows "fst (risk_assess_handler bi w all_null st) =
     Sent (Json 200 (JObj
        [(''riskScore'', JNum (Fin 0)),
         (''riskLevel'', JStr ''LOW''),
         (''reasoning'', JStr ''Score computed from inputs: timeOfDay=null, userAlone=null, neighborhoodType=null, routeLighting=null''),
         (''guardianMessage'', JStr ''Low risk detected. Exercise normal caution.''),
         (''saferAction'', JStr ''Proceed but remain aware of surroundings.''),
         (''model'', JStr ''fallback'')]))"
proof -
  have b: "js_or all_null (JObj []) = all_null" by (simp add: js_or_def all_null_def)
  have "risk_assess_handler bi w all_null st = finish st False (respond_fallback bi w all_null st)"
    using handler_placeholder [OF all_null_valid assms, of bi st] unfolding b .
  then show ?thesis
    by (simp add: respond_fallback_returns [OF fallbackRisk_all_null] finish_returns sendResult_fst)
qed

text \<open>
  C9. Validation looks at the presence of the five keys only. Every body that has them
  passes, whatever their values: the handler then answers 200 or, when the fallback
  heuristic throws, lets that exception escape, and never answers 400. With no provider
  configured, the body whose five fields are all \<^verbatim>\<open>null\<close> gets a 200 response with
  score 0 and level LOW.
\<close>

theorem validation_checks_presence_only:
  "((\<forall>f\<in>set required. map_of kvs f \<noteq> None) \<longrightarrow>
      first_missing (JObj kvs) required = Inr None
      \<and> ((\<exists>payload. fst (risk_assess_handler bi w (JObj kvs) st) = Sent (Json 200 payload))
          \<or> (\<exists>e. fst (risk_assess_handler bi w (JObj kvs) st) = Uncaught e
                 \<and> fallbackRisk bi (JObj kvs) = Inl e)))
   \<and> (isPlaceholderKey (GEMINI_API_KEY w) \<longrightarrow>
        fst (risk_assess_handler bi w all_null st) =
          Sent (Json 200 (JObj
            [(''riskScore'', JNum (Fin 0)),
             (''riskLevel'', JStr ''LOW''),
             (''reasoning'', JStr ''Score computed from inputs: timeOfDay=null, userAlone=null, neighborhoodType=null, routeLighting=null''),
             (''guardianMessage'', JStr ''Low risk detected. Exercise normal caution.''),
             (''saferAction'', JStr ''Proceed but remain aware of surroundings.''),
             (''model'', JStr ''fallback'')])))"
proof -
  have a: "first_missing (JObj kvs) required = Inr None
      \<and> ((\<exists>payload. fst (risk_assess_handler bi w (JObj kvs) st) = Sent (Json 200 payload))
          \<or> (\<exists>e. fst (risk_assess_handler bi w (JObj kvs) st) = Uncaught e
                 \<and> fallbackRisk bi (JObj kvs) = Inl e))"
    if all: "\<forall>f\<in>set required. map_of kvs f \<noteq> None"
  proof -
    have v: "first_missing (JObj kvs) required = Inr None"
      using all by (simp add: first_missing_obj find_None_all)
    have b: "js_or (JObj kvs) (JObj []) = JObj kvs" by (simp add: js_or_def)
    have "first_missing (js_or (JObj kvs) (JObj [])) required = Inr None"
      using v b by simp
    then have "(\<exists>payload c st'. risk_assess_handler bi w (JObj kvs) st = (Sent (Json 200 payload), c, st'))
     \<or> (\<exists>e c. risk_assess_handler bi w (JObj kvs) st = (Uncaught e, c, st)
           \<and> fallbackRisk bi (js_or (JObj kvs) (JObj [])) = Inl e)"
      by (rule handler_validated)
    then show ?thesis using v unfolding b by force
  qed
  show ?thesis using a all_null_response by blast
qed

theorem validation_checks_presence_only_witness:
  "first_missing all_null required = Inr None
   \<and> fst (risk_assess_handler example_builtins (example_world\<lparr>GEMINI_API_KEY := None\<rparr>)
        all_null fresh_server) =
          Sent (Json 200 (JObj
            [(''riskScore'', JNum (Fin 0)),
             (''riskLevel'', JStr ''LOW''),
             (''reasoning'', JStr ''Score computed from inputs: timeOfDay=null, userAlone=null, neighborhoodType=null, routeLighting=null''),
             (''guardianMessage'', JStr ''Low risk detected. Exercise normal caution.''),
             (''saferAction'', JStr ''Proceed but remain aware of surroundings.''),
             (''model'', JStr ''fallback'')]))"
proof -
  let ?kvs = "[(''scenarioId'', JNull), (''timeOfDay'', JNull), (''userAlone'', JNull),
           (''neighborhoodType'', JNull), (''routeLighting'', JNull)]"
  let ?w = "example_world\<lparr>GEMINI_API_KEY := None\<rparr>"
  have present: "\<forall>f\<in>set required. map_of ?kvs f \<noteq> None"
    by (simp add: required_def)
  have k: "isPlaceholderKey (GEMINI_API_KEY ?w)"
    by (simp add: isPlaceholderKey_def)
  note th = validation_checks_presence_only [where kvs = ?kvs and w = ?w
      and bi = example_builtins and st = fresh_server]
  have "first_missing (JObj ?kvs) required = Inr None"
    using th [THEN conjunct1, THEN mp, OF present] by blast
  then have a: "first_missing all_null required = Inr None"
    by (simp only: all_null_def)
  show ?thesis
    using a th [THEN conjunct2, THEN mp, OF k] by blast
qed

lemma handler_no_object:
  assumes "rb = JUndef \<or> rb = JArr xs"
  shows "risk_assess_handler bi w rb st
     = (Sent (Json 400 (JObj [(''error'', JStr ''missing_scenarioId'')])), False, st)"
proof -
  have "first_missing (js_or rb (JObj [])) required = Inr (Some ''scenarioId'')"
    using assms by (auto simp: js_or_def required_def thenE_def)
  then show ?thesis using handler_missing [of rb "''scenarioId''" bi w st] by simp
qed

lemma handler_object_missing:
  assumes "find (\<lambda>f. map_of kvs f = None) required = Some f"
  shows "risk_assess_handler bi w (JObj kvs) st
     = (Sent (Json 400 (JObj [(''error'', JStr (''missing_'' @ f))])), False, st)"
proof -
  have "js_or (JObj kvs) (JObj []) = JObj kvs" by (simp add: js_or_def)
  then have "first_missing (js_or (JObj kvs) (JObj [])) required = Inr (Some f)"
    using assms by (simp add: first_missing_obj)
  then show ?thesis by (rule handler_missing)
qed

lemma handler_object_answered:
  assumes "find (\<lambda>f. map_of kvs f = None) required = None"
    and "fallbackRisk bi (JObj kvs) = Inr out"
  shows "\<exists>payload. fst (risk_assess_handler bi w (JObj kvs) st) = Sent (Json 200 payload)"
proof -
  have b: "js_or (JObj kvs) (JObj []) = JObj kvs" by (simp add: js_or_def)
  then have "first_missing (js_or (JObj kvs) (JObj [])) required = Inr None"
    using assms(1) by (simp add: first_missing_obj)
  then have "(\<exists>payload c st'. risk_assess_handler bi w (JObj kvs) st = (Sent (Json 200 payload), c, st'))
     \<or> (\<exists>e c. risk_assess_handler bi w (JObj kvs) st = (Uncaught e, c, st)
           \<and> fallbackRisk bi (js_or (JObj kvs) (JObj [])) = Inl e)"
    by (rule handler_validated)
  then show ?thesis using assms(2) unfolding b by force
qed

lemma post_risk_assess_admitted:
  "fst (rateLimitMiddleware req now st) = Next \<Longrightarrow>
   post_risk_assess bi w req now st
     = risk_assess_handler bi w (body req) (snd (rateLimitMiddleware req now st))"
  by (cases "rateLimitMiddleware req now st") (simp add: post_risk_assess_def)

lemma post_risk_assess_denied:
  "fst (rateLimitMiddleware req now st) = Respond r \<Longrightarrow>
   post_risk_assess bi w req now st = (Sent r, False, snd (rateLimitMiddleware req now st))"
  by (cases "rateLimitMiddleware req now st") (simp add: post_risk_assess_def)

lemmas governor_eval = rateLimitMiddleware_def client_key_def getClientIp_def thenE_def
  window_check_def RATE_LIMIT_WINDOW_MS_def RATE_LIMIT_MAX_def Let_def fresh_server_def

lemma governor_admits_first:
  "fst (rateLimitMiddleware \<lparr>x_forwarded_for = JUndef, ip = Some ''10.0.0.1'', body = b\<rparr>
          1000 fresh_server) = Next"
  by (simp add: governor_eval)

text \<open>
  C3, as amended. A request that the rate governor admits and whose body lacks one of
  the five required fields is answered 400 with the error \<^verbatim>\<open>missing_\<close> followed by
  the first missing field, in the order scenarioId, timeOfDay, userAlone,
  neighborhoodType, routeLighting (an absent body or an array lacks them all). An
  admitted request that has all five fields, and on which the fallback heuristic
  returns, is answered 200. A request that the governor denies gets the governor's
  response.
\<close>

theorem missing_field_is_rejected:
  "first_missing (JObj kvs) required = Inr (find (\<lambda>f. map_of kvs f = None) required)
   \<and> (fst (rateLimitMiddleware req now st) = Next \<and> body req = JObj kvs
        \<and> find (\<lambda>f. map_of kvs f = None) required = Some f \<longrightarrow>
        post_risk_assess bi w req now st
          = (Sent (Json 400 (JObj [(''error'', JStr (''missing_'' @ f))])), False,
             snd (rateLimitMiddleware req now st)))
   \<and> (fst (rateLimitMiddleware req now st) = Next
        \<and> (body req = JUndef \<or> body req = JArr xs) \<longrightarrow>
        post_risk_assess bi w req now st
          = (Sent (Json 400 (JObj [(''error'', JStr ''missing_scenarioId'')])), False,
             snd (rateLimitMiddleware req now st)))
   \<and> (fst (rateLimitMiddleware req now st) = Next \<and> body req = JObj kvs
        \<and> find (\<lambda>f. map_of kvs f = None) required = None
        \<and> fallbackRisk bi (JObj kvs) = Inr out \<longrightarrow>
        (\<exists>payload. fst (post_risk_assess bi w req now st) = Sent (Json 200 payload)))
   \<and> (fst (rateLimitMiddleware req now st) = Respond r \<longrightarrow>
        fst (post_risk_assess bi w req now st) = Sent r)"
  using first_missing_obj [of kvs required]
    handler_object_missing [of kvs f bi w "snd (rateLimitMiddleware req now st)"]
    handler_no_object [of "body req" xs bi w "snd (rateLimitMiddleware req now st)"]
    handler_object_answered [of kvs bi out w "snd (rateLimitMiddleware req now st)"]
    post_risk_assess_admitted [of req now st bi w]
    post_risk_assess_denied [of req now st r bi w]
  by (metis fst_conv)

theorem missing_field_is_rejected_witness:
  "fst (post_risk_assess example_builtins example_world
      \<lparr>x_forwarded_for = JUndef, ip = Some ''10.0.0.1'',
        body = JObj [(''scenarioId'', JStr ''s1''), (''userAlone'', JBool True)]\<rparr>
      1000 fresh_server)
     = Sent (Json 400 (JObj [(''error'', JStr ''missing_timeOfDay'')]))
   \<and> fst (post_risk_assess example_builtins example_world
      \<lparr>x_forwarded_for = JUndef, ip = Some ''10.0.0.1'', body = JUndef\<rparr> 1000 fresh_server)
     = Sent (Json 400 (JObj [(''error'', JStr ''missing_scenarioId'')]))
   \<and> (\<exists>payload. fst (post_risk_assess example_builtins example_world
      \<lparr>x_forwarded_for = JUndef, ip = Some ''10.0.0.1'', body = morning_commute\<rparr>
      1000 fresh_server) = Sent (Json 200 payload))"
proof -
  let ?two = "[(''scenarioId'', JStr ''s1''), (''userAlone'', JBool True)]"
  let ?mc = "[(''scenarioId'', JStr ''s1''), (''timeOfDay'', JStr ''day''),
           (''userAlone'', JBool False), (''neighborhoodType'', JStr ''downtown''),
           (''routeLighting'', JStr ''good'')]"
  let ?req = "\<lambda>b. \<lparr>x_forwarded_for = JUndef, ip = Some ''10.0.0.1'', body = b\<rparr>"
  have f: "find (\<lambda>f. map_of ?two f = None) required = Some ''timeOfDay''"
    by (simp add: required_def)
  have h1: "fst (rateLimitMiddleware (?req (JObj ?two)) 1000 fresh_server) = Next
      \<and> body (?req (JObj ?two)) = JObj ?two
      \<and> find (\<lambda>f. map_of ?two f = None) required = Some ''timeOfDay''"
    using f governor_admits_first by simp
  have a: "post_risk_assess example_builtins example_world (?req (JObj ?two)) 1000 fresh_server
     = (Sent (Json 400 (JObj [(''error'', JStr (''missing_'' @ ''timeOfDay''))])), False,
        snd (rateLimitMiddleware (?req (JObj ?two)) 1000 fresh_server))"
    using missing_field_is_rejected [where kvs = ?two and f = "''timeOfDay''"
        and req = "?req (JObj ?two)" and now = 1000
        and bi = example_builtins and w = example_world and st = fresh_server,
        THEN conjunct2, THEN conjunct1, THEN mp, OF h1] .
  have h2: "fst (rateLimitMiddleware (?req JUndef) 1000 fresh_server) = Next
      \<and> (body (?req JUndef) = JUndef \<or> body (?req JUndef) = JArr [])"
    using governor_admits_first by simp
  have b: "post_risk_assess example_builtins example_world (?req JUndef) 1000 fresh_server
     = (Sent (Json 400 (JObj [(''error'', JStr ''missing_scenarioId'')])), False,
        snd (rateLimitMiddleware (?req JUndef) 1000 fresh_server))"
    using missing_field_is_rejected [where xs = "[]"
        and req = "?req JUndef" and now = 1000
        and bi = example_builtins and w = example_world and st = fresh_server,
        THEN conjunct2, THEN conjunct2, THEN conjunct1, THEN mp, OF h2] .
  have n: "find (\<lambda>f. map_of ?mc f = None) required = None"
    by (simp add: required_def)
  have r: "fallbackRisk example_builtins (JObj ?mc) = Inr (JObj [(''riskScore'', JNum (Fin 10)),
                (''riskLevel'', JStr ''LOW''),
                (''reasoning'', JStr ''Score computed from inputs: timeOfDay=day, userAlone=false, neighborhoodType=downtown, routeLighting=good''),
                (''guardianMessage'', JStr ''Low risk detected. Exercise normal caution.''),
                (''saferAction'', JStr ''Proceed but remain aware of surroundings.'')])"
    using fallbackRisk_morning_commute [of example_builtins] by (simp only: morning_commute_def)
  have h3: "fst (rateLimitMiddleware (?req (JObj ?mc)) 1000 fresh_server) = Next
      \<and> body (?req (JObj ?mc)) = JObj ?mc
      \<and> find (\<lambda>f. map_of ?mc f = None) required = None
      \<and> fallbackRisk example_builtins (JObj ?mc) = Inr (JObj [(''riskScore'', JNum (Fin 10)),
                (''riskLevel'', JStr ''LOW''),
                (''reasoning'', JStr ''Score computed from inputs: timeOfDay=day, userAlone=false, neighborhoodType=downtown, routeLighting=good''),
                (''guardianMessage'', JStr ''Low risk detected. Exercise normal caution.''),
                (''saferAction'', JStr ''Proceed but remain aware of surroundings.'')])"
    using n r governor_admits_first by simp
  have c: "\<exists>payload. fst (post_risk_assess example_builtins example_world (?req (JObj ?mc)) 1000 fresh_server)
         = Sent (Json 200 payload)"
    using missing_field_is_rejected [where kvs = ?mc
        and req = "?req (JObj ?mc)" and now = 1000
        and bi = example_builtins and w = example_world and st = fresh_server,
        THEN conjunct2, THEN conjunct2, THEN conjunct2, THEN conjunct1, THEN mp, OF h3] .
  show ?thesis
    using a b c by (simp add: morning_commute_def)
qed

text \<open>
  The claim as stated says that every request missing a field is answered 400 and that
  the validation failure is the only failure a caller sees. The rate governor runs
  first: the 31st request of a window is answered 429 whatever its body. And a body
  with all five fields whose \<^verbatim>\<open>timeOfDay\<close> is an object with an own
  \<^verbatim>\<open>toString\<close> property passes validation, but the exception that
  \<^verbatim>\<open>fallbackRisk\<close> then throws while building the reasoning text escapes the
  handler, so no risk result is sent.
\<close>

theorem validation_is_not_the_only_failure:
  "fst (post_risk_assess example_builtins example_world
      \<lparr>x_forwarded_for = JUndef, ip = Some ''10.0.0.1'', body = JObj []\<rparr> 1000
      (fresh_server\<lparr>rateLimitStore := [''10.0.0.1'' \<mapsto> \<lparr>count = 30, start = 0\<rparr>]\<rparr>))
     = Sent (Json 429 (JObj [(''error'', JStr ''rate_limited'')]))
   \<and> first_missing unprintable_time required = Inr None
   \<and> fst (post_risk_assess example_builtins (example_world\<lparr>GEMINI_API_KEY := None\<rparr>)
      \<lparr>x_forwarded_for = JUndef, ip = Some ''10.0.0.1'', body = unprintable_time\<rparr>
      1000 fresh_server)
     = Uncaught TypeError"
proof -
  have a: "fst (post_risk_assess example_builtins example_world
      \<lparr>x_forwarded_for = JUndef, ip = Some ''10.0.0.1'', body = JObj []\<rparr> 1000
      (fresh_server\<lparr>rateLimitStore := [''10.0.0.1'' \<mapsto> \<lparr>count = 30, start = 0\<rparr>]\<rparr>))
     = Sent (Json 429 (JObj [(''error'', JStr ''rate_limited'')]))"
    by (simp add: post_risk_assess_def governor_eval)
  have b: "first_missing unprintable_time required = Inr None"
    by (simp add: unprintable_time_def required_def thenE_def)
  have "risk_assess_handler example_builtins (example_world\<lparr>GEMINI_API_KEY := None\<rparr>)
        unprintable_time st = (Uncaught TypeError, False, st)" for st
    by (simp add: eval_defs example_world_def unprintable_time_def)
  then have c: "fst (post_risk_assess example_builtins (example_world\<lparr>GEMINI_API_KEY := None\<rparr>)
      \<lparr>x_forwarded_for = JUndef, ip = Some ''10.0.0.1'', body = unprintable_time\<rparr>
      1000 fresh_server) = Uncaught TypeError"
    using post_risk_assess_admitted [OF governor_admits_first [of unprintable_time],
        where bi = example_builtins
          and w = "example_world\<lparr>GEMINI_API_KEY := None\<rparr>"]
    by simp
  show ?thesis using a b c by blast
qed

lemma example_key_is_real: "\<not> isPlaceholderKey (GEMINI_API_KEY example_world)"
  by (simp add: example_world_def isPlaceholderKey_def placeholder_regex_test_def
      toLowerCase_def toLowerCase_char_def)

lemma parse_answer_null_score:
  "parse_provider_text example_builtins answer_null_score =
     JObj [(''riskScore'', JNull), (''riskLevel'', JStr ''HIGH''),
           (''saferAction'', JStr ''Take a taxi.'')]"
  by (simp add: parse_provider_text_def example_builtins_def example_JSON_parse_def)

lemma example_JSON_parse_over_range:
  "example_JSON_parse answer_over_range = None"
  by (simp add: example_JSON_parse_def answer_over_range_def answer_null_score_def
      answer_over_range_object_def answer_no_score_def)

lemma slice_answer_over_range:
  "indexOf answer_over_range CHR ''{'' = 13
   \<and> lastIndexOf answer_over_range CHR ''}'' = 127
   \<and> slice answer_over_range 13 (127 + 1) = answer_over_range_object"
  by (simp add: answer_over_range_def answer_over_range_object_def slice_def
      lastIndexOf_def Let_def)

lemma example_JSON_parse_object:
  "example_JSON_parse answer_over_range_object =
     Some (JObj [(''riskScore'', JNum (Fin 150)), (''riskLevel'', JStr ''LOW''),
                 (''reasoning'', JStr ''Quiet street.''),
                 (''guardianMessage'', JStr ''Enjoy.''),
                 (''saferAction'', JStr ''Walk on.'')])"
  by (simp add: example_JSON_parse_def answer_over_range_object_def answer_null_score_def)

lemma parse_answer_over_range:
  "parse_provider_text example_builtins answer_over_range =
     JObj [(''riskScore'', JNum (Fin 150)), (''riskLevel'', JStr ''LOW''),
           (''reasoning'', JStr ''Quiet street.''),
           (''guardianMessage'', JStr ''Enjoy.''),
           (''saferAction'', JStr ''Walk on.'')]"
  using slice_answer_over_range
  by (simp add: parse_provider_text_def example_builtins_def example_JSON_parse_over_range
      example_JSON_parse_object Let_def)

lemma parse_answer_no_score:
  "parse_provider_text example_builtins answer_no_score = JObj [(''riskLevel'', JStr ''LOW'')]"
  by (simp add: parse_provider_text_def example_builtins_def example_JSON_parse_def
      answer_no_score_def answer_null_score_def answer_over_range_object_def)

lemma answer_refusal_fails: "both_parses_fail example_builtins answer_refusal"
  by (simp add: both_parses_fail_def example_builtins_def example_JSON_parse_def
      answer_refusal_def answer_null_score_def answer_over_range_object_def
      answer_no_score_def lastIndexOf_def Let_def)

text \<open>
  C2, as amended. For a request that passes field validation with a real provider key,
  and on which the fallback heuristic returns, every provider failure gives the 200
  response of the fallback heuristic tagged \<^verbatim>\<open>model\<close> = \<^verbatim>\<open>fallback\<close>: the
  provider call throws; the text fails the strict parse and the parse of the slice from
  the first opening to the last closing brace; or the parsed value is falsy, or
  \<^verbatim>\<open>Number(parsed.riskScore)\<close> throws or is not finite.
\<close>

theorem provider_failure_degrades_to_fallback:
  "first_missing (js_or rb (JObj [])) required = Inr None
   \<and> \<not> isPlaceholderKey (GEMINI_API_KEY w)
   \<and> provider_failure bi w
   \<and> fallbackRisk bi (js_or rb (JObj [])) = Inr out
   \<longrightarrow> risk_assess_handler bi w rb st
        = (Sent (Json 200 (JObj (set_entry ''model'' (JStr ''fallback'') (own_props out)))),
           True,
           snd (sendResult w (js_or rb (JObj [])) out ''fallback'' st))"
proof -
  have "risk_assess_handler bi w rb st
        = (Sent (Json 200 (JObj (set_entry ''model'' (JStr ''fallback'') (own_props out)))),
           True,
           snd (sendResult w (js_or rb (JObj [])) out ''fallback'' st))"
    if v: "first_missing (js_or rb (JObj [])) required = Inr None"
      and k: "\<not> isPlaceholderKey (GEMINI_API_KEY w)"
      and f: "provider_failure bi w"
      and r: "fallbackRisk bi (js_or rb (JObj [])) = Inr out"
  proof -
    have "risk_assess_handler bi w rb st
        = finish st True (respond_fallback bi w (js_or rb (JObj [])) st)"
      using v k f by (rule handler_provider_failure)
    then show ?thesis
      by (simp add: respond_fallback_returns [OF r] finish_returns sendResult_fst)
  qed
  then show ?thesis by blast
qed

lemma morning_commute_body: "js_or morning_commute (JObj []) = morning_commute"
  by (simp add: js_or_def morning_commute_def)

theorem provider_failure_degrades_to_fallback_witness:
  "fst (risk_assess_handler example_builtins example_world morning_commute fresh_server)
     = Sent (Json 200 (JObj
          [(''riskScore'', JNum (Fin 10)),
           (''riskLevel'', JStr ''LOW''),
           (''reasoning'', JStr ''Score computed from inputs: timeOfDay=day, userAlone=false, neighborhoodType=downtown, routeLighting=good''),
           (''guardianMessage'', JStr ''Low risk detected. Exercise normal caution.''),
           (''saferAction'', JStr ''Proceed but remain aware of surroundings.''),
           (''model'', JStr ''fallback'')]))
   \<and> fst (risk_assess_handler example_builtins
        (example_world\<lparr>gemini := ProviderText answer_refusal\<rparr>) morning_commute fresh_server)
     = fst (risk_assess_handler example_builtins example_world morning_commute fresh_server)
   \<and> fst (risk_assess_handler example_builtins
        (example_world\<lparr>gemini := ProviderText answer_no_score\<rparr>) morning_commute fresh_server)
     = fst (risk_assess_handler example_builtins example_world morning_commute fresh_server)"
proof -
  let ?out = "JObj [(''riskScore'', JNum (Fin 10)),
                (''riskLevel'', JStr ''LOW''),
                (''reasoning'', JStr ''Score computed from inputs: timeOfDay=day, userAlone=false, neighborhoodType=downtown, routeLighting=good''),
                (''guardianMessage'', JStr ''Low risk detected. Exercise normal caution.''),
                (''saferAction'', JStr ''Proceed but remain aware of surroundings.'')]"
  have r: "fallbackRisk example_builtins (js_or morning_commute (JObj [])) = Inr ?out"
    unfolding morning_commute_body by (rule fallbackRisk_morning_commute)
  have sent: "fst (risk_assess_handler example_builtins w morning_commute fresh_server)
       = Sent (Json 200 (JObj (set_entry ''model'' (JStr ''fallback'') (own_props ?out))))"
    if "\<not> isPlaceholderKey (GEMINI_API_KEY w)" and "provider_failure example_builtins w" for w
    using provider_failure_degrades_to_fallback [where rb = morning_commute and w = w
        and bi = example_builtins and out = ?out and st = fresh_server, THEN mp,
        OF conjI [OF morning_commute_valid conjI [OF that(1) conjI [OF that(2) r]]]]
    by simp
  have k: "\<not> isPlaceholderKey (GEMINI_API_KEY (example_world\<lparr>gemini := g\<rparr>))" for g
    using example_key_is_real by simp
  have f1: "provider_failure example_builtins example_world"
    by (simp add: provider_failure_def example_world_def)
  have f2: "provider_failure example_builtins (example_world\<lparr>gemini := ProviderText answer_refusal\<rparr>)"
    by (simp add: provider_failure_def answer_refusal_fails)
  have f3: "provider_failure example_builtins (example_world\<lparr>gemini := ProviderText answer_no_score\<rparr>)"
    by (simp add: provider_failure_def score_not_finite_def parse_answer_no_score)
  show ?thesis
    using sent [OF example_key_is_real f1] sent [OF k f2] sent [OF k f3] by simp
qed

text \<open>
  The claim as stated fails in two ways. A parsed object whose \<^verbatim>\<open>riskScore\<close> is
  \<^verbatim>\<open>null\<close> has no finite number there, but \<^verbatim>\<open>Number(null)\<close> is 0, so the
  object is accepted and answered with \<^verbatim>\<open>model\<close> = \<^verbatim>\<open>gemini\<close> and score 0 rather
  than by the fallback. And when the provider fails on a body whose \<^verbatim>\<open>timeOfDay\<close>
  cannot be converted to a string, the fallback throws in the inner and again in the
  outer \<^verbatim>\<open>catch\<close>, and the handler sends no response.
\<close>

theorem non_number_score_is_accepted:
  "first_missing morning_commute required = Inr None
   \<and> \<not> isPlaceholderKey (GEMINI_API_KEY example_world)
   \<and> get_prop (parse_provider_text example_builtins answer_null_score) ''riskScore'' = JNull
   \<and> fst (risk_assess_handler example_builtins
        (example_world\<lparr>gemini := ProviderText answer_null_score\<rparr>) morning_commute fresh_server)
     = Sent (Json 200 (JObj
          [(''riskScore'', JNum (Fin 0)), (''riskLevel'', JStr ''HIGH''),
           (''saferAction'', JStr ''Take a taxi.''), (''model'', JStr ''gemini'')]))
   \<and> first_missing unprintable_time required = Inr None
   \<and> fst (risk_assess_handler example_builtins example_world unprintable_time fresh_server)
     = Uncaught TypeError"
proof -
  have a: "first_missing morning_commute required = Inr None"
    using morning_commute_valid unfolding morning_commute_body .
  have b: "get_prop (parse_provider_text example_builtins answer_null_score) ''riskScore'' = JNull"
    by (simp add: parse_answer_null_score)
  have c: "fst (risk_assess_handler example_builtins
        (example_world\<lparr>gemini := ProviderText answer_null_score\<rparr>) morning_commute fresh_server)
     = Sent (Json 200 (JObj
          [(''riskScore'', JNum (Fin 0)), (''riskLevel'', JStr ''HIGH''),
           (''saferAction'', JStr ''Take a taxi.''), (''model'', JStr ''gemini'')]))"
    by (simp add: eval_defs parse_answer_null_score example_world_def morning_commute_def)
  have d: "first_missing unprintable_time required = Inr None"
    by (simp add: unprintable_time_def required_def thenE_def)
  have e: "fst (risk_assess_handler example_builtins example_world unprintable_time fresh_server)
     = Uncaught TypeError"
    by (simp add: eval_defs example_world_def unprintable_time_def)
  show ?thesis using a example_key_is_real b c d e by blast
qed

lemma clamped_payload:
  assumes "payload = JObj (set_entry ''model'' (JStr ''gemini'')
        (set_entry ''riskScore'' (JNum (Fin c)) (own_props parsed)))"
  shows "get_prop payload ''riskScore'' = JNum (Fin c)
     \<and> get_prop payload ''model'' = JStr ''gemini''
     \<and> (\<forall>k. k \<noteq> ''riskScore'' \<and> k \<noteq> ''model'' \<longrightarrow> get_prop payload k = get_prop parsed k)"
  unfolding assms
  by (simp del: get_prop.simps add: get_prop_set_entry get_prop_own_props)

text \<open>
  C7. When the provider's answer parses to a value whose \<^verbatim>\<open>riskScore\<close> converts to
  a finite number (in particular when it is a finite number), the response is 200 with
  the parsed object's properties, \<^verbatim>\<open>riskScore\<close> replaced by the number clamped to
  the range from 0 to 100, and \<^verbatim>\<open>model\<close> set to \<^verbatim>\<open>gemini\<close>. The level, the
  reasoning, the guardian message and the safer action are those of the provider; the
  level is not recomputed from the clamped score.
\<close>

theorem provider_result_is_clamped_and_passed_through:
  "first_missing (js_or rb (JObj [])) required = Inr None
   \<and> \<not> isPlaceholderKey (GEMINI_API_KEY w)
   \<and> gemini w = ProviderText answer
   \<and> parse_provider_text bi answer = parsed
   \<and> truthy parsed
   \<and> ToNumber bi (get_prop parsed ''riskScore'') = Inr (Fin q)
   \<longrightarrow> (\<exists>payload.
          fst (risk_assess_handler bi w rb st) = Sent (Json 200 payload)
          \<and> payload = JObj (set_entry ''model'' (JStr ''gemini'')
               (set_entry ''riskScore'' (JNum (Fin (max 0 (min 100 q)))) (own_props parsed)))
          \<and> get_prop payload ''riskScore'' = JNum (Fin (max 0 (min 100 q)))
          \<and> 0 \<le> max 0 (min 100 q) \<and> max 0 (min 100 q) \<le> 100
          \<and> get_prop payload ''riskLevel'' = get_prop parsed ''riskLevel''
          \<and> get_prop payload ''reasoning'' = get_prop parsed ''reasoning''
          \<and> get_prop payload ''guardianMessage'' = get_prop parsed ''guardianMessage''
          \<and> get_prop payload ''saferAction'' = get_prop parsed ''saferAction''
          \<and> get_prop payload ''model'' = JStr ''gemini''
          \<and> (\<forall>k. k \<noteq> ''riskScore'' \<and> k \<noteq> ''model'' \<longrightarrow> get_prop payload k = get_prop parsed k))"
proof -
  let ?payload = "JObj (set_entry ''model'' (JStr ''gemini'')
               (set_entry ''riskScore'' (JNum (Fin (max 0 (min 100 q)))) (own_props parsed)))"
  have "fst (risk_assess_handler bi w rb st) = Sent (Json 200 ?payload)"
    if "first_missing (js_or rb (JObj [])) required = Inr None"
      and "\<not> isPlaceholderKey (GEMINI_API_KEY w)"
      and "gemini w = ProviderText answer"
      and "parse_provider_text bi answer = parsed"
      and "truthy parsed"
      and "ToNumber bi (get_prop parsed ''riskScore'') = Inr (Fin q)"
    using that by (rule handler_provider_success)
  moreover have "get_prop ?payload ''riskScore'' = JNum (Fin (max 0 (min 100 q)))
     \<and> get_prop ?payload ''model'' = JStr ''gemini''
     \<and> (\<forall>k. k \<noteq> ''riskScore'' \<and> k \<noteq> ''model'' \<longrightarrow> get_prop ?payload k = get_prop parsed k)"
    by (rule clamped_payload) simp
  moreover have "0 \<le> max 0 (min 100 q) \<and> max 0 (min 100 q) \<le> 100"
    by simp
  ultimately show ?thesis by simp
qed

theorem provider_result_is_clamped_and_passed_through_witness:
  "fst (risk_assess_handler example_builtins
        (example_world\<lparr>gemini := ProviderText answer_over_range\<rparr>) morning_commute fresh_server)
     = Sent (Json 200 (JObj
          [(''riskScore'', JNum (Fin 100)), (''riskLevel'', JStr ''LOW''),
           (''reasoning'', JStr ''Quiet street.''),
           (''guardianMessage'', JStr ''Enjoy.''),
           (''saferAction'', JStr ''Walk on.''),
           (''model'', JStr ''gemini'')]))"
proof -
  let ?w = "example_world\<lparr>gemini := ProviderText answer_over_range\<rparr>"
  let ?parsed = "JObj [(''riskScore'', JNum (Fin 150)), (''riskLevel'', JStr ''LOW''),
           (''reasoning'', JStr ''Quiet street.''),
           (''guardianMessage'', JStr ''Enjoy.''),
           (''saferAction'', JStr ''Walk on.'')]"
  have k: "\<not> isPlaceholderKey (GEMINI_API_KEY ?w)"
    using example_key_is_real by simp
  have g: "gemini ?w = ProviderText answer_over_range" by simp
  have t: "truthy ?parsed" by simp
  have n: "ToNumber example_builtins (get_prop ?parsed ''riskScore'') = Inr (Fin 150)" by simp
  obtain payload where
    "fst (risk_assess_handler example_builtins ?w morning_commute fresh_server) = Sent (Json 200 payload)"
    and "payload = JObj (set_entry ''model'' (JStr ''gemini'')
               (set_entry ''riskScore'' (JNum (Fin (max 0 (min 100 150)))) (own_props ?parsed)))"
    using provider_result_is_clamped_and_passed_through [where rb = morning_commute and w = ?w
        and bi = example_builtins and answer = answer_over_range and parsed = ?parsed
        and q = 150 and st = fresh_server, THEN mp,
        OF conjI [OF morning_commute_valid conjI [OF k conjI [OF g
             conjI [OF parse_answer_over_range conjI [OF t n]]]]]]
    by blast
  then show ?thesis by simp
qed

lemma handler_triple:
  "risk_assess_handler bi w rb st
     = (fst (risk_assess_handler bi w rb st),
        fst (snd (risk_assess_handler bi w rb st)),
        snd (snd (risk_assess_handler bi w rb st)))"
  by simp

lemma fallbackRisk_late_night_walk:
  "fallbackRisk bi late_night_walk =
     Inr (JObj [(''riskScore'', JNum (Fin 70)),
                (''riskLevel'', JStr ''HIGH''),
                (''reasoning'', JStr ''Score computed from inputs: timeOfDay=night, userAlone=true, neighborhoodType=residential, routeLighting=poor''),
                (''guardianMessage'', JStr ''High risk detected. Stay alert and consider contacting someone you trust.''),
                (''saferAction'', JStr ''Avoid the route if possible, choose a well-lit path, or ask someone to accompany you.'')])"
  by (simp add: late_night_walk_def fallbackRisk_def fallback_score_def
      fallback_level_def fallback_reasoning_def thenE_def js_and_def clamp_def
      guardian_message_def safer_action_def)

lemma fallbackRisk_unnamed_scenario:
  "fallbackRisk bi unnamed_scenario =
     Inr (JObj [(''riskScore'', JNum (Fin 10)),
                (''riskLevel'', JStr ''LOW''),
                (''reasoning'', JStr ''Score computed from inputs: timeOfDay=day, userAlone=false, neighborhoodType=downtown, routeLighting=good''),
                (''guardianMessage'', JStr ''Low risk detected. Exercise normal caution.''),
                (''saferAction'', JStr ''Proceed but remain aware of surroundings.'')])"
  by (simp add: unnamed_scenario_def fallbackRisk_def fallback_score_def
      fallback_level_def fallback_reasoning_def thenE_def js_and_def clamp_def
      guardian_message_def safer_action_def)

lemma no_key_response:
  assumes "first_missing (js_or rb (JObj [])) required = Inr None"
    and "js_or rb (JObj []) = rb"
    and "fallbackRisk example_builtins rb = Inr out"
  shows "risk_assess_handler example_builtins (example_world\<lparr>GEMINI_API_KEY := None\<rparr>) rb st
     = (Sent (Json 200 (JObj (set_entry ''model'' (JStr ''fallback'') (own_props out)))),
        False,
        snd (sendResult (example_world\<lparr>GEMINI_API_KEY := None\<rparr>) rb out ''fallback'' st))"
proof -
  let ?w = "example_world\<lparr>GEMINI_API_KEY := None\<rparr>"
  have k: "isPlaceholderKey (GEMINI_API_KEY ?w)" by (simp add: isPlaceholderKey_def)
  have "risk_assess_handler example_builtins ?w rb st
      = finish st False (respond_fallback example_builtins ?w rb st)"
    using handler_placeholder [OF assms(1) k, of example_builtins st] unfolding assms(2) .
  then show ?thesis
    by (simp add: respond_fallback_returns [OF assms(3)] finish_returns sendResult_fst)
qed

lemma late_night_walk_body: "js_or late_night_walk (JObj []) = late_night_walk"
  by (simp add: js_or_def late_night_walk_def)

lemma late_night_walk_valid: "first_missing (js_or late_night_walk (JObj [])) required = Inr None"
  by (simp add: late_night_walk_def js_or_def required_def thenE_def)

lemma unnamed_scenario_body: "js_or unnamed_scenario (JObj []) = unnamed_scenario"
  by (simp add: js_or_def unnamed_scenario_def)

lemma unnamed_scenario_valid: "first_missing (js_or unnamed_scenario (JObj [])) required = Inr None"
  by (simp add: unnamed_scenario_def js_or_def required_def thenE_def)

text \<open>
  C4, as amended. The handler changes the memory record exactly when it sends a result
  whose \<^verbatim>\<open>riskLevel\<close> is the string LOW, on the provider path and on the fallback
  path alike. After such a result a memory-echo read returns \<^verbatim>\<open>hasMemory\<close> true,
  the submitted \<^verbatim>\<open>scenarioId\<close> or \<^verbatim>\<open>null\<close> when that is falsy, and the result's
  \<^verbatim>\<open>saferAction\<close> or \<^verbatim>\<open>null\<close> when that is falsy or absent. Any other outcome
  (another level, a 400, an escaped exception) leaves the whole state unchanged. A
  failing write of the memory file changes neither the response nor the memory record.
\<close>

theorem low_result_updates_memory:
  "risk_assess_handler bi w rb st = (out, c, st') \<longrightarrow>
     (\<forall>payload. out = Sent (Json 200 payload) \<and> get_prop payload ''riskLevel'' = JStr ''LOW'' \<longrightarrow>
        memory_echo st' =
          JObj [(''hasMemory'', JBool True),
                (''lastLowScenarioId'', js_or (get_prop rb ''scenarioId'') JNull),
                (''lastSaferAction'', js_or (get_prop payload ''saferAction'') JNull)])
     \<and> ((\<forall>payload. out = Sent (Json 200 payload) \<longrightarrow> get_prop payload ''riskLevel'' \<noteq> JStr ''LOW'')
          \<longrightarrow> st' = st)
     \<and> fst (risk_assess_handler bi (w\<lparr>writeFileSync_ok := ok\<rparr>) rb st) = out
     \<and> memory_echo (snd (snd (risk_assess_handler bi (w\<lparr>writeFileSync_ok := ok\<rparr>) rb st)))
          = memory_echo st'"
proof
  assume h: "risk_assess_handler bi w rb st = (out, c, st')"
  have m: "(\<forall>payload. out = Sent (Json 200 payload) \<and> get_prop payload ''riskLevel'' = JStr ''LOW'' \<longrightarrow>
            MEMORY st' = \<lparr>hasMemory = True,
                          lastLowScenarioId = js_or (get_prop rb ''scenarioId'') JNull,
                          lastSaferAction = js_or (get_prop payload ''saferAction'') JNull\<rparr>)
     \<and> ((\<forall>payload. out = Sent (Json 200 payload) \<longrightarrow> get_prop payload ''riskLevel'' \<noteq> JStr ''LOW'')
            \<longrightarrow> st' = st)"
    using h by (rule handler_memory)
  have low: "memory_echo st' =
          JObj [(''hasMemory'', JBool True),
                (''lastLowScenarioId'', js_or (get_prop rb ''scenarioId'') JNull),
                (''lastSaferAction'', js_or (get_prop payload ''saferAction'') JNull)]"
    if "out = Sent (Json 200 payload) \<and> get_prop payload ''riskLevel'' = JStr ''LOW''" for payload
  proof -
    have "MEMORY st' = \<lparr>hasMemory = True,
                          lastLowScenarioId = js_or (get_prop rb ''scenarioId'') JNull,
                          lastSaferAction = js_or (get_prop payload ''saferAction'') JNull\<rparr>"
      using m that by blast
    then show ?thesis by (simp add: memory_echo_def memory_json_def)
  qed
  have w1: "fst (risk_assess_handler bi (w\<lparr>writeFileSync_ok := ok\<rparr>) rb st) = out"
    and w2: "MEMORY (snd (snd (risk_assess_handler bi (w\<lparr>writeFileSync_ok := ok\<rparr>) rb st))) = MEMORY st'"
    using write_independent [where bi = bi and w = w and ok = ok and rb = rb and st = st] h by simp_all
  have w3: "memory_echo (snd (snd (risk_assess_handler bi (w\<lparr>writeFileSync_ok := ok\<rparr>) rb st)))
          = memory_echo st'"
    using w2 by (simp add: memory_echo_def)
  show "(\<forall>payload. out = Sent (Json 200 payload) \<and> get_prop payload ''riskLevel'' = JStr ''LOW'' \<longrightarrow>
        memory_echo st' =
          JObj [(''hasMemory'', JBool True),
                (''lastLowScenarioId'', js_or (get_prop rb ''scenarioId'') JNull),
                (''lastSaferAction'', js_or (get_prop payload ''saferAction'') JNull)])
     \<and> ((\<forall>payload. out = Sent (Json 200 payload) \<longrightarrow> get_prop payload ''riskLevel'' \<noteq> JStr ''LOW'')
          \<longrightarrow> st' = st)
     \<and> fst (risk_assess_handler bi (w\<lparr>writeFileSync_ok := ok\<rparr>) rb st) = out
     \<and> memory_echo (snd (snd (risk_assess_handler bi (w\<lparr>writeFileSync_ok := ok\<rparr>) rb st)))
          = memory_echo st'"
    using low m w1 w3 by blast
qed

theorem low_result_updates_memory_witness:
  "memory_echo (snd (snd (risk_assess_handler example_builtins
        (example_world\<lparr>GEMINI_API_KEY := None\<rparr>) morning_commute fresh_server)))
     = JObj [(''hasMemory'', JBool True),
             (''lastLowScenarioId'', JStr ''s1''),
             (''lastSaferAction'', JStr ''Proceed but remain aware of surroundings.'')]
   \<and> snd (snd (risk_assess_handler example_builtins
        (example_world\<lparr>GEMINI_API_KEY := None\<rparr>) late_night_walk fresh_server))
     = fresh_server
   \<and> memory_echo fresh_server
     = JObj [(''hasMemory'', JBool False), (''lastLowScenarioId'', JNull),
             (''lastSaferAction'', JNull)]"
proof -
  let ?w = "example_world\<lparr>GEMINI_API_KEY := None\<rparr>"
  let ?low = "JObj [(''riskScore'', JNum (Fin 10)),
                (''riskLevel'', JStr ''LOW''),
                (''reasoning'', JStr ''Score computed from inputs: timeOfDay=day, userAlone=false, neighborhoodType=downtown, routeLighting=good''),
                (''guardianMessage'', JStr ''Low risk detected. Exercise normal caution.''),
                (''saferAction'', JStr ''Proceed but remain aware of surroundings.''),
                (''model'', JStr ''fallback'')]"
  let ?high = "JObj [(''riskScore'', JNum (Fin 70)),
                (''riskLevel'', JStr ''HIGH''),
                (''reasoning'', JStr ''Score computed from inputs: timeOfDay=night, userAlone=true, neighborhoodType=residential, routeLighting=poor''),
                (''guardianMessage'', JStr ''High risk detected. Stay alert and consider contacting someone you trust.''),
                (''saferAction'', JStr ''Avoid the route if possible, choose a well-lit path, or ask someone to accompany you.''),
                (''model'', JStr ''fallback'')]"
  let ?h1 = "risk_assess_handler example_builtins ?w morning_commute fresh_server"
  let ?h2 = "risk_assess_handler example_builtins ?w late_night_walk fresh_server"
  have o1: "fst ?h1 = Sent (Json 200 ?low)"
    using no_key_response [OF morning_commute_valid morning_commute_body
        fallbackRisk_morning_commute, of fresh_server]
    by simp
  have o2: "fst ?h2 = Sent (Json 200 ?high)"
    using no_key_response [OF late_night_walk_valid late_night_walk_body
        fallbackRisk_late_night_walk, of fresh_server]
    by simp
  note t1 = low_result_updates_memory [where bi = example_builtins and w = ?w
      and rb = morning_commute and st = fresh_server and out = "fst ?h1"
      and c = "fst (snd ?h1)" and st' = "snd (snd ?h1)", THEN mp, OF handler_triple]
  note t2 = low_result_updates_memory [where bi = example_builtins and w = ?w
      and rb = late_night_walk and st = fresh_server and out = "fst ?h2"
      and c = "fst (snd ?h2)" and st' = "snd (snd ?h2)", THEN mp, OF handler_triple]
  have "fst ?h1 = Sent (Json 200 ?low) \<and> get_prop ?low ''riskLevel'' = JStr ''LOW''"
    using o1 by simp
  then have "memory_echo (snd (snd ?h1)) =
          JObj [(''hasMemory'', JBool True),
                (''lastLowScenarioId'', js_or (get_prop morning_commute ''scenarioId'') JNull),
                (''lastSaferAction'', js_or (get_prop ?low ''saferAction'') JNull)]"
    using t1 [THEN conjunct1] by blast
  then have a: "memory_echo (snd (snd ?h1))
     = JObj [(''hasMemory'', JBool True),
             (''lastLowScenarioId'', JStr ''s1''),
             (''lastSaferAction'', JStr ''Proceed but remain aware of surroundings.'')]"
    by (simp add: js_or_def morning_commute_def)
  have "\<forall>payload. fst ?h2 = Sent (Json 200 payload) \<longrightarrow> get_prop payload ''riskLevel'' \<noteq> JStr ''LOW''"
    unfolding o2 by simp
  then have b: "snd (snd ?h2) = fresh_server"
    using t2 [THEN conjunct2, THEN conjunct1] by blast
  have c: "memory_echo fresh_server
     = JObj [(''hasMemory'', JBool False), (''lastLowScenarioId'', JNull),
             (''lastSaferAction'', JNull)]"
    by (simp add: memory_echo_def memory_json_def fresh_server_def initial_memory_def)
  show ?thesis using a b c by blast
qed

text \<open>
  The claim as stated says that the echo carries the submitted scenario id. It does
  not when the id is falsy: for the empty string the record holds \<^verbatim>\<open>null\<close>.
\<close>

theorem empty_scenario_id_is_stored_as_null:
  "get_prop unnamed_scenario ''scenarioId'' = JStr []
   \<and> fst (risk_assess_handler example_builtins
        (example_world\<lparr>GEMINI_API_KEY := None\<rparr>) unnamed_scenario fresh_server)
     = Sent (Json 200 (JObj
          [(''riskScore'', JNum (Fin 10)),
           (''riskLevel'', JStr ''LOW''),
           (''reasoning'', JStr ''Score computed from inputs: timeOfDay=day, userAlone=false, neighborhoodType=downtown, routeLighting=good''),
           (''guardianMessage'', JStr ''Low risk detected. Exercise normal caution.''),
           (''saferAction'', JStr ''Proceed but remain aware of surroundings.''),
           (''model'', JStr ''fallback'')]))
   \<and> memory_echo (snd (snd (risk_assess_handler example_builtins
        (example_world\<lparr>GEMINI_API_KEY := None\<rparr>) unnamed_scenario fresh_server)))
     = JObj [(''hasMemory'', JBool True),
             (''lastLowScenarioId'', JNull),
             (''lastSaferAction'', JStr ''Proceed but remain aware of surroundings.'')]"
proof -
  let ?w = "example_world\<lparr>GEMINI_API_KEY := None\<rparr>"
  have h: "risk_assess_handler example_builtins ?w unnamed_scenario fresh_server
     = (Sent (Json 200 (JObj (set_entry ''model'' (JStr ''fallback'') (own_props
          (JObj [(''riskScore'', JNum (Fin 10)),
                (''riskLevel'', JStr ''LOW''),
                (''reasoning'', JStr ''Score computed from inputs: timeOfDay=day, userAlone=false, neighborhoodType=downtown, routeLighting=good''),
                (''guardianMessage'', JStr ''Low risk detected. Exercise normal caution.''),
                (''saferAction'', JStr ''Proceed but remain aware of surroundings.'')]))))),
        False,
        snd (sendResult ?w unnamed_scenario
          (JObj [(''riskScore'', JNum (Fin 10)),
                (''riskLevel'', JStr ''LOW''),
                (''reasoning'', JStr ''Score computed from inputs: timeOfDay=day, userAlone=false, neighborhoodType=downtown, routeLighting=good''),
                (''guardianMessage'', JStr ''Low risk detected. Exercise normal caution.''),
                (''saferAction'', JStr ''Proceed but remain aware of surroundings.'')])
          ''fallback'' fresh_server))"
    by (rule no_key_response [OF unnamed_scenario_valid unnamed_scenario_body
        fallbackRisk_unnamed_scenario])
  have a: "get_prop unnamed_scenario ''scenarioId'' = JStr []"
    by (simp add: unnamed_scenario_def)
  show ?thesis
    unfolding h using a
    by (simp add: sendResult_def saveMemory_def Let_def js_or_def memory_echo_def
        memory_json_def example_world_def)
qed

section \<open>Properties of the speech handler\<close>

lemma tts_missing_text:
  "\<forall>t. get_prop (js_or rb (JObj [])) ''text'' \<noteq> JStr t \<Longrightarrow>
   tts_handler bi api_key voice_id fetched rb = Json 400 (JObj [(''error'', JStr ''missing_text'')])"
  by (cases "get_prop (js_or rb (JObj [])) ''text''") (simp_all add: tts_handler_def)

lemma tts_text_too_long:
  "get_prop (js_or rb (JObj [])) ''text'' = JStr t \<Longrightarrow> length t > 400 \<Longrightarrow>
   tts_handler bi api_key voice_id fetched rb = Json 400 (JObj [(''error'', JStr ''text_too_long'')])"
  by (simp add: tts_handler_def)

lemma tts_not_configured:
  "get_prop (js_or rb (JObj [])) ''text'' = JStr t \<Longrightarrow> length t \<le> 400 \<Longrightarrow>
   isPlaceholder api_key \<or> isPlaceholder voice_id \<Longrightarrow>
   tts_handler bi api_key voice_id fetched rb
     = Json 500 (JObj [(''error'', JStr ''elevenlabs_not_configured'')])"
  by (auto simp: tts_handler_def)

lemma tts_provider_failure:
  "get_prop (js_or rb (JObj [])) ''text'' = JStr t \<Longrightarrow> length t \<le> 400 \<Longrightarrow>
   \<not> isPlaceholder api_key \<Longrightarrow> \<not> isPlaceholder voice_id \<Longrightarrow>
   fetched = FetchThrows \<or> fetched = FetchNotOk provider_body \<or> fetched = FetchOk None \<Longrightarrow>
   tts_handler bi api_key voice_id fetched rb
     = Json 200 (JObj [(''ok'', JBool False), (''fallback'', JBool True),
                       (''provider'', JStr ''browser_tts''), (''text'', JStr t),
                       (''reason'', JStr ''elevenlabs_unavailable'')])"
  by (auto simp: tts_handler_def tts_fallback_def Let_def)

lemma tts_audio:
  "get_prop (js_or rb (JObj [])) ''text'' = JStr t \<Longrightarrow> length t \<le> 400 \<Longrightarrow>
   \<not> isPlaceholder api_key \<Longrightarrow> \<not> isPlaceholder voice_id \<Longrightarrow>
   fetched = FetchOk (Some audio) \<Longrightarrow>
   tts_handler bi api_key voice_id fetched rb = AudioMpeg audio"
  by (simp add: tts_handler_def)

lemma real_speech_keys:
  "\<not> isPlaceholder (Some ''sk_3f9a1c77d2'') \<and> \<not> isPlaceholder (Some ''21m00Tcm4TlvDq8ikWAM'')"
  by (simp add: isPlaceholder_def placeholder_regex_test_def toLowerCase_def toLowerCase_char_def)

text \<open>
  C8. The speech handler answers 400 \<^verbatim>\<open>missing_text\<close> when \<^verbatim>\<open>text\<close> is not a
  string; 400 \<^verbatim>\<open>text_too_long\<close> when its length exceeds 400 (401 is rejected, 400
  is not); 500 \<^verbatim>\<open>elevenlabs_not_configured\<close> when the text is acceptable and either
  credential is a placeholder; and, when the provider fails (the call throws, the
  status is not a success, or the audio cannot be read), 200 with the fixed fallback
  object, which is built from the request's text alone and so never holds the
  provider's error body. On success the audio bytes are returned.
\<close>

theorem tts_responses:
  "((\<forall>t. get_prop (js_or rb (JObj [])) ''text'' \<noteq> JStr t) \<longrightarrow>
      tts_handler bi api_key voice_id fetched rb
        = Json 400 (JObj [(''error'', JStr ''missing_text'')]))
   \<and> (get_prop (js_or rb (JObj [])) ''text'' = JStr t \<and> length t > 400 \<longrightarrow>
      tts_handler bi api_key voice_id fetched rb
        = Json 400 (JObj [(''error'', JStr ''text_too_long'')]))
   \<and> (get_prop (js_or rb (JObj [])) ''text'' = JStr t \<and> length t \<le> 400
        \<and> (isPlaceholder api_key \<or> isPlaceholder voice_id) \<longrightarrow>
      tts_handler bi api_key voice_id fetched rb
        = Json 500 (JObj [(''error'', JStr ''elevenlabs_not_configured'')]))
   \<and> (get_prop (js_or rb (JObj [])) ''text'' = JStr t \<and> length t \<le> 400
        \<and> \<not> isPlaceholder api_key \<and> \<not> isPlaceholder voice_id
        \<and> (fetched = FetchThrows \<or> fetched = FetchNotOk provider_body \<or> fetched = FetchOk None) \<longrightarrow>
      tts_handler bi api_key voice_id fetched rb
        = Json 200 (JObj [(''ok'', JBool False), (''fallback'', JBool True),
                          (''provider'', JStr ''browser_tts''), (''text'', JStr t),
                          (''reason'', JStr ''elevenlabs_unavailable'')]))
   \<and> (get_prop (js_or rb (JObj [])) ''text'' = JStr t \<and> length t \<le> 400
        \<and> \<not> isPlaceholder api_key \<and> \<not> isPlaceholder voice_id
        \<and> fetched = FetchOk (Some audio) \<longrightarrow>
      tts_handler bi api_key voice_id fetched rb = AudioMpeg audio)"
  using tts_missing_text [of rb bi api_key voice_id fetched]
    tts_text_too_long [of rb t bi api_key voice_id fetched]
    tts_not_configured [of rb t api_key voice_id bi fetched]
    tts_provider_failure [of rb t api_key voice_id fetched provider_body bi]
    tts_audio [of rb t api_key voice_id fetched audio bi]
  by blast

theorem tts_responses_witness:
  "tts_handler example_builtins (Some ''sk_3f9a1c77d2'') (Some ''21m00Tcm4TlvDq8ikWAM'')
      FetchThrows (JObj [(''message'', JStr ''hello'')])
     = Json 400 (JObj [(''error'', JStr ''missing_text'')])
   \<and> tts_handler example_builtins (Some ''sk_3f9a1c77d2'') (Some ''21m00Tcm4TlvDq8ikWAM'')
      FetchThrows (JObj [(''text'', JStr (replicate 401 CHR ''a''))])
     = Json 400 (JObj [(''error'', JStr ''text_too_long'')])
   \<and> tts_handler example_builtins None (Some ''21m00Tcm4TlvDq8ikWAM'')
      FetchThrows (JObj [(''text'', JStr (replicate 400 CHR ''a''))])
     = Json 500 (JObj [(''error'', JStr ''elevenlabs_not_configured'')])
   \<and> tts_handler example_builtins (Some ''sk_3f9a1c77d2'') (Some ''21m00Tcm4TlvDq8ikWAM'')
      (FetchNotOk (Some ''quota exceeded for key sk_3f9a1c77d2''))
      (JObj [(''text'', JStr (replicate 400 CHR ''a''))])
     = Json 200 (JObj [(''ok'', JBool False), (''fallback'', JBool True),
                       (''provider'', JStr ''browser_tts''),
                       (''text'', JStr (replicate 400 CHR ''a'')),
                       (''reason'', JStr ''elevenlabs_unavailable'')])"
proof -
  let ?k = "Some ''sk_3f9a1c77d2''"
  let ?v = "Some ''21m00Tcm4TlvDq8ikWAM''"
  let ?b1 = "JObj [(''message'', JStr ''hello'')]"
  let ?b2 = "JObj [(''text'', JStr (replicate 401 CHR ''a''))]"
  let ?b3 = "JObj [(''text'', JStr (replicate 400 CHR ''a''))]"
  let ?err = "Some ''quota exceeded for key sk_3f9a1c77d2''"
  have h1: "\<forall>t. get_prop (js_or ?b1 (JObj [])) ''text'' \<noteq> JStr t"
    by (simp add: js_or_def)
  have h2: "get_prop (js_or ?b2 (JObj [])) ''text'' = JStr (replicate 401 CHR ''a'')
      \<and> length (replicate 401 CHR ''a'') > 400"
    by (simp add: js_or_def)
  have h3: "get_prop (js_or ?b3 (JObj [])) ''text'' = JStr (replicate 400 CHR ''a'')
      \<and> length (replicate 400 CHR ''a'') \<le> 400
      \<and> (isPlaceholder None \<or> isPlaceholder ?v)"
    by (simp add: js_or_def isPlaceholder_def)
  have h4: "get_prop (js_or ?b3 (JObj [])) ''text'' = JStr (replicate 400 CHR ''a'')
      \<and> length (replicate 400 CHR ''a'') \<le> 400
      \<and> \<not> isPlaceholder ?k \<and> \<not> isPlaceholder ?v
      \<and> (FetchNotOk ?err = FetchThrows \<or> FetchNotOk ?err = FetchNotOk ?err
           \<or> FetchNotOk ?err = FetchOk None)"
    using real_speech_keys by (simp add: js_or_def)
  note a = tts_responses [where rb = ?b1 and bi = example_builtins and api_key = ?k
      and voice_id = ?v and fetched = FetchThrows, THEN conjunct1, THEN mp, OF h1]
  note b = tts_responses [where rb = ?b2 and bi = example_builtins and api_key = ?k
      and voice_id = ?v and fetched = FetchThrows and t = "replicate 401 CHR ''a''",
      THEN conjunct2, THEN conjunct1, THEN mp, OF h2]
  note c = tts_responses [where rb = ?b3 and bi = example_builtins and api_key = None
      and voice_id = ?v and fetched = FetchThrows and t = "replicate 400 CHR ''a''",
      THEN conjunct2, THEN conjunct2, THEN conjunct1, THEN mp, OF h3]
  note d = tts_responses [where rb = ?b3 and bi = example_builtins and api_key = ?k
      and voice_id = ?v and fetched = "FetchNotOk ?err" and provider_body = ?err
      and t = "replicate 400 CHR ''a''",
      THEN conjunct2, THEN conjunct2, THEN conjunct2, THEN conjunct1, THEN mp, OF h4]
  show ?thesis using a b c d by blast
qed

end
